theory Spec2Isabelle
  imports Main
begin

section \<open>Errors\<close>

text \<open>
  Every failure of \<^verbatim>\<open>torchgen/model.py\<close> is an exception. A failed \<^verbatim>\<open>assert\<close> is
  \<open>AssertionError\<close>; \<open>RuntimeError\<close> is raised for an unrecognized type and for the
  autogen check of a group; \<open>ValueError\<close> is a tuple unpacking of the wrong length;
  \<open>IndexError\<close> is indexing an empty string. \<open>SignatureMismatch\<close> stands for the
  \<^verbatim>\<open>AssertionError\<close> that \<^verbatim>\<open>NativeFunctionsGroup.__post_init__\<close> raises itself, with the
  message "NativeFunctionsGroup constructed from two NativeFunctions that don't have
  matching signatures".
\<close>

datatype error = AssertionError | RuntimeError | ValueError | IndexError | SignatureMismatch

section \<open>Python string operations\<close>

text \<open>
  A Python string is a list of characters here. The characters of HOL are bytes, and the
  schema language is written in ASCII.
\<close>

text \<open>\<^verbatim>\<open>s.startswith(p)\<close> and \<^verbatim>\<open>s.endswith(p)\<close>.\<close>

definition str_startswith :: "string \<Rightarrow> string \<Rightarrow> bool" where
  "str_startswith s p = (take (length p) s = p)"

definition str_endswith :: "string \<Rightarrow> string \<Rightarrow> bool" where
  "str_endswith s p = (length p \<le> length s \<and> drop (length s - length p) s = p)"

text \<open>\<^verbatim>\<open>s.find(sub)\<close>: the lowest index where \<open>sub\<close> occurs, \<open>None\<close> for Python's -1.\<close>

fun str_find :: "string \<Rightarrow> string \<Rightarrow> nat option" where
  "str_find [] sub = (if sub = [] then Some 0 else None)"
| "str_find (c # cs) sub =
     (if str_startswith (c # cs) sub then Some 0
      else map_option Suc (str_find cs sub))"

text \<open>\<^verbatim>\<open>sub in s\<close>.\<close>

definition str_contains :: "string \<Rightarrow> string \<Rightarrow> bool" where
  "str_contains s sub = (str_find s sub \<noteq> None)"

text \<open>\<^verbatim>\<open>s.rfind(sub)\<close>: the highest index where \<open>sub\<close> occurs.\<close>

fun str_rfind :: "string \<Rightarrow> string \<Rightarrow> nat option" where
  "str_rfind [] sub = (if sub = [] then Some 0 else None)"
| "str_rfind (c # cs) sub =
     (case str_rfind cs sub of
        Some i \<Rightarrow> Some (Suc i)
      | None \<Rightarrow> if str_startswith (c # cs) sub then Some 0 else None)"

text \<open>
  \<^verbatim>\<open>s.split(sep)\<close> for a non-empty separator: the pieces between the non-overlapping
  occurrences of \<open>sep\<close>, found from the left. The result always has at least one piece.
\<close>

fun str_split :: "string \<Rightarrow> string \<Rightarrow> string list" where
  "str_split [] sep = [[]]"
| "str_split (c # cs) sep =
     (if sep \<noteq> [] \<and> str_startswith (c # cs) sep
      then [] # str_split (drop (length sep) (c # cs)) sep
      else (case str_split cs sep of
              [] \<Rightarrow> [[c]]
            | p # ps \<Rightarrow> (c # p) # ps))"

text \<open>\<^verbatim>\<open>s.split(sep, 1)\<close>: split at the first occurrence of \<open>sep\<close> only.\<close>

definition str_split1 :: "string \<Rightarrow> string \<Rightarrow> string list" where
  "str_split1 s sep =
     (case str_find s sep of
        None \<Rightarrow> [s]
      | Some i \<Rightarrow> [take i s, drop (i + length sep) s])"

text \<open>\<^verbatim>\<open>s.rsplit(sep, 1)\<close>: split at the last occurrence of \<open>sep\<close> only.\<close>

definition str_rsplit1 :: "string \<Rightarrow> string \<Rightarrow> string list" where
  "str_rsplit1 s sep =
     (case str_rfind s sep of
        None \<Rightarrow> [s]
      | Some i \<Rightarrow> [take i s, drop (i + length sep) s])"

text \<open>\<^verbatim>\<open>sep.join(xs)\<close>.\<close>

fun str_join :: "string \<Rightarrow> string list \<Rightarrow> string" where
  "str_join sep [] = []"
| "str_join sep [x] = x"
| "str_join sep (x # y # ys) = x @ sep @ str_join sep (y # ys)"

text \<open>
  \<^verbatim>\<open>s.replace(old, new)\<close> for a non-empty \<open>old\<close>: every non-overlapping occurrence,
  from the left.
\<close>

fun str_replace :: "string \<Rightarrow> string \<Rightarrow> string \<Rightarrow> string" where
  "str_replace [] old new = []"
| "str_replace (c # cs) old new =
     (if old \<noteq> [] \<and> str_startswith (c # cs) old
      then new @ str_replace (drop (length old) (c # cs)) old new
      else c # str_replace cs old new)"

text \<open>Decimal digits: \<^verbatim>\<open>int(ds)\<close> on a string of digits and \<^verbatim>\<open>str(i)\<close> on an integer.\<close>

definition is_digit :: "char \<Rightarrow> bool" where
  "is_digit c = (c \<in> set ''0123456789'')"

definition digit_val :: "char \<Rightarrow> int" where
  "digit_val c = int (of_char c - (48::nat))"

definition int_of_digits :: "string \<Rightarrow> int" where
  "int_of_digits ds = foldl (\<lambda>a c. 10 * a + digit_val c) 0 ds"

definition digit_char :: "nat \<Rightarrow> char" where
  "digit_char d = ''0123456789'' ! d"

fun str_of_nat :: "nat \<Rightarrow> string" where
  "str_of_nat n =
     (if n < 10 then [digit_char n]
      else str_of_nat (n div 10) @ [digit_char (n mod 10)])"

definition str_of_int :: "int \<Rightarrow> string" where
  "str_of_int i = (if i < 0 then CHR ''-'' # str_of_nat (nat (- i)) else str_of_nat (nat i))"

text \<open>
  Python's \<^verbatim>\<open>$\<close> (without MULTILINE) matches at the end of the string and just before a
  newline that ends the string. In every pattern below the text before \<^verbatim>\<open>$\<close> cannot end
  in a newline, so a pattern \<^verbatim>\<open>^P$\<close> matches \<open>s\<close> exactly when \<open>P\<close> matches the whole of
  \<open>dollar_body s\<close>, which is \<open>s\<close> without one trailing newline.
\<close>

definition newline :: char where
  "newline = CHR 0x0A"

definition dollar_body :: "string \<Rightarrow> string" where
  "dollar_body s = (if s \<noteq> [] \<and> last s = newline then butlast s else s)"

section \<open>Type grammar\<close>

text \<open>
  \<^verbatim>\<open>BaseTy\<close>, the enumeration of the atoms. The members \<^verbatim>\<open>int\<close>, \<^verbatim>\<open>float\<close>, \<^verbatim>\<open>str\<close> and
  \<^verbatim>\<open>bool\<close> carry the suffix \<open>_ty\<close> here.
\<close>

datatype BaseTy =
    Generator | ScalarType | Tensor | int_ty | Dimname | float_ty | str_ty | bool_ty
  | Layout | Device | Scalar | MemoryFormat | QScheme | Storage | Stream | SymInt
  | ConstQuantizerPtr

text \<open>\<^verbatim>\<open>BaseTy.name\<close>, the member's name, and \<^verbatim>\<open>BaseTy[t]\<close>, the lookup by name.\<close>

fun BaseTy_name :: "BaseTy \<Rightarrow> string" where
  "BaseTy_name Generator = ''Generator''"
| "BaseTy_name ScalarType = ''ScalarType''"
| "BaseTy_name Tensor = ''Tensor''"
| "BaseTy_name int_ty = ''int''"
| "BaseTy_name Dimname = ''Dimname''"
| "BaseTy_name float_ty = ''float''"
| "BaseTy_name str_ty = ''str''"
| "BaseTy_name bool_ty = ''bool''"
| "BaseTy_name Layout = ''Layout''"
| "BaseTy_name Device = ''Device''"
| "BaseTy_name Scalar = ''Scalar''"
| "BaseTy_name MemoryFormat = ''MemoryFormat''"
| "BaseTy_name QScheme = ''QScheme''"
| "BaseTy_name Storage = ''Storage''"
| "BaseTy_name Stream = ''Stream''"
| "BaseTy_name SymInt = ''SymInt''"
| "BaseTy_name ConstQuantizerPtr = ''ConstQuantizerPtr''"

definition BaseTy_members :: "BaseTy list" where
  "BaseTy_members =
     [Generator, ScalarType, Tensor, int_ty, Dimname, float_ty, str_ty, bool_ty, Layout,
      Device, Scalar, MemoryFormat, QScheme, Storage, Stream, SymInt, ConstQuantizerPtr]"

definition BaseTy_getitem :: "string \<Rightarrow> BaseTy option" where
  "BaseTy_getitem t = find (\<lambda>b. BaseTy_name b = t) BaseTy_members"

text \<open>
  The classes \<^verbatim>\<open>BaseType\<close>, \<^verbatim>\<open>OptionalType\<close> and \<^verbatim>\<open>ListType\<close> (with its optional size)
  of the base class \<^verbatim>\<open>Type\<close>.
\<close>

datatype Type = BaseType BaseTy | OptionalType Type | ListType Type "int option"

text \<open>
  \<^verbatim>\<open>__str__\<close> of the three classes. \<^verbatim>\<open>ListType\<close> prints its size only when the size is
  truthy: neither \<^verbatim>\<open>None\<close> nor 0.
\<close>

fun Type_str :: "Type \<Rightarrow> string" where
  "Type_str (BaseType b) = BaseTy_name b"
| "Type_str (OptionalType elem) = Type_str elem @ ''?''"
| "Type_str (ListType elem sz) =
     Type_str elem @ ''['' @
       (case sz of None \<Rightarrow> [] | Some n \<Rightarrow> if n \<noteq> 0 then str_of_int n else []) @ '']''"

text \<open>
  \<^verbatim>\<open>re.match(r"^(.+)\?$", t)\<close>: group 1. The dot does not match a newline, so the
  group is non-empty and free of newlines.
\<close>

definition match_optional :: "string \<Rightarrow> string option" where
  "match_optional t =
     (let body = dollar_body t in
      if 2 \<le> length body \<and> last body = CHR ''?'' \<and> newline \<notin> set (butlast body)
      then Some (butlast body) else None)"

text \<open>
  \<^verbatim>\<open>re.match(r"^(.+)\[([0-9]+)?\]$", t)\<close>: groups 1 and 2. Group 2 is \<open>None\<close> when no
  digit stands between the brackets. The digits are the longest run of digits before
  the closing bracket, and an opening bracket must stand before them.
\<close>

definition match_list :: "string \<Rightarrow> (string \<times> string option) option" where
  "match_list t =
     (let body = dollar_body t in
      if body = [] \<or> last body \<noteq> CHR '']'' then None
      else
        let inner = butlast body;
            ds = rev (takeWhile is_digit (rev inner));
            front = take (length inner - length ds) inner
        in if front = [] \<or> last front \<noteq> CHR ''['' then None
           else
             let g = butlast front
             in if g = [] \<or> newline \<in> set g then None
                else Some (g, if ds = [] then None else Some ds))"

text \<open>
  \<^verbatim>\<open>Type.parse\<close> and \<^verbatim>\<open>Type._parse\<close>. The \<^verbatim>\<open>KeyError\<close> of the enumeration lookup is
  turned into a \<^verbatim>\<open>RuntimeError\<close> by the source.
\<close>

function (sequential) Type_parse :: "string \<Rightarrow> error + Type"
  and Type__parse :: "string \<Rightarrow> error + Type" where
  "Type_parse t =
     (case Type__parse t of
        Inl e \<Rightarrow> Inl e
      | Inr r \<Rightarrow> if Type_str r = t then Inr r else Inl AssertionError)"
| "Type__parse t =
     (case match_optional t of
        Some g \<Rightarrow>
          (case Type_parse g of Inl e \<Rightarrow> Inl e | Inr elem \<Rightarrow> Inr (OptionalType elem))
      | None \<Rightarrow>
          (case match_list t of
             Some (g, ds) \<Rightarrow>
               (case Type_parse g of
                  Inl e \<Rightarrow> Inl e
                | Inr elem \<Rightarrow> Inr (ListType elem (map_option int_of_digits ds)))
           | None \<Rightarrow>
               (case BaseTy_getitem t of
                  Some b \<Rightarrow> Inr (BaseType b)
                | None \<Rightarrow> Inl RuntimeError)))"
  by pat_completeness auto
termination
  by (relation "measure (\<lambda>x. case x of Inl t \<Rightarrow> 2 * length t + 1 | Inr t \<Rightarrow> 2 * length t)")
     (auto simp: match_optional_def match_list_def dollar_body_def Let_def split: if_splits)

declare Type_parse.simps [simp del] Type__parse.simps [simp del]

section \<open>Annotation grammar\<close>

record Annotation =
  alias_set :: "string list"
  is_write :: bool
  alias_set_after :: string

text \<open>\<^verbatim>\<open>Annotation.__str__\<close>.\<close>

definition Annotation_str :: "Annotation \<Rightarrow> string" where
  "Annotation_str a =
     (let s = str_join ''|'' (alias_set a);
          s' = (if alias_set_after a \<noteq> [] then s @ '' -> '' @ alias_set_after a else s)
      in s' @ (if is_write a then ''!'' else []))"

text \<open>
  \<^verbatim>\<open>re.match(r"^([a-z])(!?)(!?)$", s)\<close>: groups 1 and 2. The pattern matches one lower
  case letter followed by at most two exclamation marks; group 2 takes the first one.
\<close>

definition is_lower :: "char \<Rightarrow> bool" where
  "is_lower c = (c \<in> set ''abcdefghijklmnopqrstuvwxyz'')"

definition match_alias :: "string \<Rightarrow> (string \<times> string) option" where
  "match_alias s =
     (case dollar_body s of
        [] \<Rightarrow> None
      | c # rest \<Rightarrow>
          if is_lower c \<and> rest \<in> set [[], ''!'', ''!!'']
          then Some ([c], take 1 rest) else None)"

text \<open>\<^verbatim>\<open>Annotation.parse\<close>.\<close>

definition Annotation_parse :: "string \<Rightarrow> error + Annotation" where
  "Annotation_parse ann =
     (let becomes_wildcard_index = str_find ann '' -> *'';
          after_set = (case becomes_wildcard_index of Some i \<Rightarrow> ''*'' | None \<Rightarrow> []);
          m = (case becomes_wildcard_index of
                 Some i \<Rightarrow> match_alias (take i ann @ drop (i + length '' -> *'') ann)
               | None \<Rightarrow> match_alias ann)
      in case m of
           None \<Rightarrow> Inl AssertionError
         | Some (g1, g2) \<Rightarrow>
             let r = \<lparr>alias_set = [g1], is_write = (g2 = ''!''), alias_set_after = after_set\<rparr>
             in if Annotation_str r = ann then Inr r else Inl AssertionError)"

section \<open>Argument and Return grammar\<close>

text \<open>
  The fields \<^verbatim>\<open>name\<close>, \<^verbatim>\<open>type\<close>, \<^verbatim>\<open>default\<close> and \<^verbatim>\<open>annotation\<close> of \<^verbatim>\<open>Argument\<close> and
  of \<^verbatim>\<open>Return\<close> carry the prefixes \<open>arg_\<close> and \<open>ret_\<close>, since a field name is a constant.
\<close>

record Argument =
  arg_name :: string
  arg_type :: Type
  arg_default :: "string option"
  arg_annotation :: "Annotation option"

record Return =
  ret_name :: "string option"
  ret_type :: Type
  ret_annotation :: "Annotation option"

text \<open>The property \<^verbatim>\<open>is_write\<close> of both classes.\<close>

definition annotation_is_write :: "Annotation option \<Rightarrow> bool" where
  "annotation_is_write ann = (case ann of None \<Rightarrow> False | Some a \<Rightarrow> is_write a)"

definition Argument_is_write :: "Argument \<Rightarrow> bool" where
  "Argument_is_write a = annotation_is_write (arg_annotation a)"

definition Return_is_write :: "Return \<Rightarrow> bool" where
  "Return_is_write r = annotation_is_write (ret_annotation r)"

text \<open>
  The first lines of both \<^verbatim>\<open>__str__\<close> methods: the printed type, with the annotation
  put after \<^verbatim>\<open>Tensor\<close>; the assertion admits three printed types only.
\<close>

definition annotated_type_str :: "Type \<Rightarrow> Annotation option \<Rightarrow> error + string" where
  "annotated_type_str ty ann =
     (let t = Type_str ty in
      case ann of
        None \<Rightarrow> Inr t
      | Some a \<Rightarrow>
          if t \<in> set [''Tensor'', ''Tensor?'', ''Tensor[]'']
          then Inr (str_replace t ''Tensor'' (''Tensor('' @ Annotation_str a @ '')''))
          else Inl AssertionError)"

text \<open>\<^verbatim>\<open>Argument.__str__\<close>; the default is printed when it is neither \<^verbatim>\<open>None\<close> nor empty.\<close>

definition Argument_str :: "Argument \<Rightarrow> error + string" where
  "Argument_str a =
     (case annotated_type_str (arg_type a) (arg_annotation a) of
        Inl e \<Rightarrow> Inl e
      | Inr t \<Rightarrow>
          let mb_default = (case arg_default a of
                              None \<Rightarrow> []
                            | Some d \<Rightarrow> if d \<noteq> [] then ''='' @ d else [])
          in Inr (t @ '' '' @ arg_name a @ mb_default))"

text \<open>\<^verbatim>\<open>Return.__str__\<close>.\<close>

definition Return_str :: "Return \<Rightarrow> error + string" where
  "Return_str r =
     (case annotated_type_str (ret_type r) (ret_annotation r) of
        Inl e \<Rightarrow> Inl e
      | Inr t \<Rightarrow>
          (case ret_name r of
             None \<Rightarrow> Inr t
           | Some n \<Rightarrow> Inr (t @ '' '' @ n)))"

text \<open>
  \<^verbatim>\<open>re.match(r"Tensor\((.+)\)(.*)", s)\<close>: groups 1 and 2. The match is anchored at the
  start only and stays on the first line; the greedy group 1 ends at the last closing
  parenthesis of that line and is non-empty.
\<close>

definition match_tensor_annot :: "string \<Rightarrow> (string \<times> string) option" where
  "match_tensor_annot s =
     (if \<not> str_startswith s ''Tensor('' then None
      else
        let line = takeWhile (\<lambda>c. c \<noteq> newline) (drop (length ''Tensor('') s)
        in case str_rfind line '')'' of
             None \<Rightarrow> None
           | Some p \<Rightarrow> if p = 0 then None else Some (take p line, drop (Suc p) line))"

text \<open>
  The part shared by \<^verbatim>\<open>Argument.parse\<close> and \<^verbatim>\<open>Return.parse\<close>: from the text before the
  name to the type and the annotation.
\<close>

definition parse_type_and_annot :: "string \<Rightarrow> error + (Type \<times> Annotation option)" where
  "parse_type_and_annot type_and_annot =
     (case match_tensor_annot type_and_annot of
        Some (g1, g2) \<Rightarrow>
          if g2 \<notin> set [[], ''?'', ''[]''] then Inl AssertionError
          else (case Annotation_parse g1 of
                  Inl e \<Rightarrow> Inl e
                | Inr ann \<Rightarrow>
                    (case Type_parse (''Tensor'' @ g2) of
                       Inl e \<Rightarrow> Inl e
                     | Inr ty \<Rightarrow> Inr (ty, Some ann)))
      | None \<Rightarrow>
          (case Type_parse type_and_annot of
             Inl e \<Rightarrow> Inl e
           | Inr ty \<Rightarrow> Inr (ty, None)))"

text \<open>
  \<^verbatim>\<open>Argument.parse\<close>. Unpacking \<^verbatim>\<open>arg.rsplit(" ", 1)\<close> into two names raises
  \<^verbatim>\<open>ValueError\<close> when there is no space, and so does unpacking
  \<^verbatim>\<open>name_and_default.split("=")\<close> when there are two equals signs.
\<close>

definition Argument_parse :: "string \<Rightarrow> error + Argument" where
  "Argument_parse arg =
     (case str_rsplit1 arg '' '' of
        [type_and_annot, name_and_default] \<Rightarrow>
          (case (if str_contains name_and_default ''=''
                 then (case str_split name_and_default ''='' of
                         [n, d] \<Rightarrow> Inr (n, Some d)
                       | _ \<Rightarrow> Inl ValueError)
                 else Inr (name_and_default, None)) of
             Inl e \<Rightarrow> Inl e
           | Inr (n, d) \<Rightarrow>
               (case parse_type_and_annot type_and_annot of
                  Inl e \<Rightarrow> Inl e
                | Inr (ty, ann) \<Rightarrow>
                    let r = \<lparr>arg_name = n, arg_type = ty, arg_default = d, arg_annotation = ann\<rparr>
                    in if Argument_str r = Inr arg then Inr r else Inl AssertionError))
      | _ \<Rightarrow> Inl ValueError)"

text \<open>\<^verbatim>\<open>Return.parse\<close>.\<close>

definition Return_parse :: "string \<Rightarrow> error + Return" where
  "Return_parse arg =
     (let (type_and_annot, n) =
            (if str_contains arg '' ''
             then (case str_rsplit1 arg '' '' of
                     [t, n] \<Rightarrow> (t, Some n)
                   | _ \<Rightarrow> (arg, None))
             else (arg, None))
      in case parse_type_and_annot type_and_annot of
           Inl e \<Rightarrow> Inl e
         | Inr (ty, ann) \<Rightarrow>
             let r = \<lparr>ret_name = n, ret_type = ty, ret_annotation = ann\<rparr>
             in if Return_str r = Inr arg then Inr r else Inl AssertionError)"

section \<open>Arguments\<close>

text \<open>
  A sequence of fallible steps stops at the first exception: \<^verbatim>\<open>map(str, xs)\<close> and the
  comprehensions over a parser are \<open>map_err\<close>.
\<close>

fun map_err :: "('a \<Rightarrow> error + 'b) \<Rightarrow> 'a list \<Rightarrow> error + 'b list" where
  "map_err f [] = Inr []"
| "map_err f (x # xs) =
     (case f x of
        Inl e \<Rightarrow> Inl e
      | Inr y \<Rightarrow> (case map_err f xs of Inl e \<Rightarrow> Inl e | Inr ys \<Rightarrow> Inr (y # ys)))"

datatype SelfArgument = SelfArgument (argument: Argument)

record TensorOptionsArguments =
  dtype :: Argument
  layout :: Argument
  device :: Argument
  pin_memory :: Argument

text \<open>\<^verbatim>\<open>TensorOptionsArguments.all\<close>.\<close>

definition TensorOptionsArguments_all :: "TensorOptionsArguments \<Rightarrow> Argument list" where
  "TensorOptionsArguments_all t = [dtype t, layout t, device t, pin_memory t]"

record Arguments =
  pre_self_positional :: "Argument list"
  self_arg :: "SelfArgument option"
  post_self_positional :: "Argument list"
  pre_tensor_options_kwarg_only :: "Argument list"
  tensor_options :: "TensorOptionsArguments option"
  post_tensor_options_kwarg_only :: "Argument list"
  out :: "Argument list"

text \<open>The properties \<^verbatim>\<open>flat_positional\<close>, \<^verbatim>\<open>post_self_positional_mutable\<close>,
  \<^verbatim>\<open>flat_kwarg_only\<close> and \<^verbatim>\<open>flat_all\<close>.\<close>

definition flat_positional :: "Arguments \<Rightarrow> Argument list" where
  "flat_positional a =
     pre_self_positional a
     @ (case self_arg a of None \<Rightarrow> [] | Some s \<Rightarrow> [argument s])
     @ post_self_positional a"

definition post_self_positional_mutable :: "Arguments \<Rightarrow> Argument list" where
  "post_self_positional_mutable a = filter Argument_is_write (post_self_positional a)"

definition flat_kwarg_only :: "Arguments \<Rightarrow> Argument list" where
  "flat_kwarg_only a =
     pre_tensor_options_kwarg_only a
     @ (case tensor_options a of None \<Rightarrow> [] | Some t \<Rightarrow> TensorOptionsArguments_all t)
     @ post_tensor_options_kwarg_only a"

definition flat_all :: "Arguments \<Rightarrow> Argument list" where
  "flat_all a = flat_positional a @ flat_kwarg_only a @ out a"

text \<open>
  \<^verbatim>\<open>Arguments.__post_init__\<close>, which the dataclass runs at the end of every
  construction, and the construction itself.
\<close>

definition Arguments_post_init :: "Arguments \<Rightarrow> error + unit" where
  "Arguments_post_init a =
     (if self_arg a = None \<and> pre_self_positional a \<noteq> [] then Inl AssertionError
      else if tensor_options a = None \<and> post_tensor_options_kwarg_only a \<noteq> []
      then Inl AssertionError
      else if length (filter Argument_is_write (pre_self_positional a)) \<noteq> 0
      then Inl AssertionError
      else Inr ())"

definition new_Arguments :: "Arguments \<Rightarrow> error + Arguments" where
  "new_Arguments a = (case Arguments_post_init a of Inl e \<Rightarrow> Inl e | Inr u \<Rightarrow> Inr a)"

text \<open>\<^verbatim>\<open>Arguments.__str__\<close>.\<close>

definition Arguments_str :: "Arguments \<Rightarrow> error + string" where
  "Arguments_str a =
     (case map_err Argument_str (flat_positional a) of
        Inl e \<Rightarrow> Inl e
      | Inr pos \<Rightarrow>
          let star = (if flat_kwarg_only a \<noteq> [] \<or> out a \<noteq> [] then [''*''] else [])
          in (case map_err Argument_str (flat_kwarg_only a) of
                Inl e \<Rightarrow> Inl e
              | Inr kw \<Rightarrow>
                  (case map_err Argument_str (out a) of
                     Inl e \<Rightarrow> Inl e
                   | Inr outs \<Rightarrow> Inr (str_join '', '' (pos @ star @ kw @ outs)))))"

text \<open>
  \<^verbatim>\<open>Arguments.signature\<close>, with its keyword \<^verbatim>\<open>strip_default\<close>, and the local function
  \<^verbatim>\<open>strip_arg_annotation\<close>.
\<close>

definition strip_arg_annotation :: "bool \<Rightarrow> Argument \<Rightarrow> Argument" where
  "strip_arg_annotation strip_default a =
     \<lparr>arg_name = arg_name a, arg_type = arg_type a,
      arg_default = (if \<not> strip_default then arg_default a else None),
      arg_annotation = None\<rparr>"

definition Arguments_signature :: "bool \<Rightarrow> Arguments \<Rightarrow> error + Arguments" where
  "Arguments_signature strip_default a =
     new_Arguments
       \<lparr>pre_self_positional = map (strip_arg_annotation strip_default) (pre_self_positional a),
        self_arg = (case self_arg a of
                      Some s \<Rightarrow> Some (SelfArgument (strip_arg_annotation strip_default (argument s)))
                    | None \<Rightarrow> None),
        post_self_positional = map (strip_arg_annotation strip_default) (post_self_positional a),
        pre_tensor_options_kwarg_only =
          map (strip_arg_annotation strip_default) (pre_tensor_options_kwarg_only a)
          @ map (strip_arg_annotation strip_default) (post_tensor_options_kwarg_only a),
        tensor_options = None,
        post_tensor_options_kwarg_only = [],
        out = []\<rparr>"

subsection \<open>Phase 1: the pre-split\<close>

text \<open>
  \<^verbatim>\<open>Arguments._preparse\<close> keeps three lists and the variable \<^verbatim>\<open>arguments_acc\<close>, which is
  one of the three lists by identity; the state records which one. The loop body is
  \<open>preparse_step\<close>, the loop over \<^verbatim>\<open>args.split(", ")\<close> is \<open>preparse_loop\<close>.
\<close>

datatype acc_target = acc_positional | acc_kwarg_only | acc_out

record preparse_state =
  arguments_acc :: acc_target
  positional :: "Argument list"
  kwarg_only :: "Argument list"
  out_list :: "Argument list"

text \<open>\<^verbatim>\<open>arguments_acc.append(parg)\<close>.\<close>

definition acc_append :: "preparse_state \<Rightarrow> Argument \<Rightarrow> preparse_state" where
  "acc_append st parg =
     (case arguments_acc st of
        acc_positional \<Rightarrow> st\<lparr>positional := positional st @ [parg]\<rparr>
      | acc_kwarg_only \<Rightarrow> st\<lparr>kwarg_only := kwarg_only st @ [parg]\<rparr>
      | acc_out \<Rightarrow> st\<lparr>out_list := out_list st @ [parg]\<rparr>)"

definition preparse_step :: "preparse_state \<Rightarrow> string \<Rightarrow> error + preparse_state" where
  "preparse_step st arg =
     (if arg = [] then Inr st
      else if arg = ''*'' then
        (if arguments_acc st = acc_positional
         then Inr (st\<lparr>arguments_acc := acc_kwarg_only\<rparr>)
         else Inl AssertionError)
      else
        (case Argument_parse arg of
           Inl e \<Rightarrow> Inl e
         | Inr parg \<Rightarrow>
             if annotation_is_write (arg_annotation parg) then
               (if arguments_acc st = acc_positional then Inr (acc_append st parg)
                else if arguments_acc st = acc_kwarg_only
                then Inr (acc_append (st\<lparr>arguments_acc := acc_out\<rparr>) parg)
                else Inr (acc_append st parg))
             else if arguments_acc st = acc_out then Inl AssertionError
             else Inr (acc_append st parg)))"

fun preparse_loop :: "preparse_state \<Rightarrow> string list \<Rightarrow> error + preparse_state" where
  "preparse_loop st [] = Inr st"
| "preparse_loop st (arg # rest) =
     (case preparse_step st arg of
        Inl e \<Rightarrow> Inl e
      | Inr st' \<Rightarrow> preparse_loop st' rest)"

definition preparse_init :: preparse_state where
  "preparse_init =
     \<lparr>arguments_acc = acc_positional, positional = [], kwarg_only = [], out_list = []\<rparr>"

definition Arguments__preparse ::
  "string \<Rightarrow> error + (Argument list \<times> Argument list \<times> Argument list)" where
  "Arguments__preparse args =
     (case preparse_loop preparse_init (str_split args '', '') of
        Inl e \<Rightarrow> Inl e
      | Inr st \<Rightarrow> Inr (positional st, kwarg_only st, out_list st))"

subsection \<open>Phase 2: self and tensor options\<close>

text \<open>
  The local function \<^verbatim>\<open>pred\<close> and the list \<^verbatim>\<open>predicates\<close> of \<^verbatim>\<open>Arguments.parse\<close>. The
  four calls of \<^verbatim>\<open>Type.parse\<close> there are on constants and give the four base types.
\<close>

definition pred :: "string \<Rightarrow> Type \<Rightarrow> Argument \<Rightarrow> bool" where
  "pred n ty a = (arg_name a = n \<and> arg_type a \<in> set [ty, OptionalType ty])"

definition predicates :: "(Argument \<Rightarrow> bool) list" where
  "predicates =
     [pred ''dtype'' (BaseType ScalarType),
      pred ''layout'' (BaseType Layout),
      pred ''device'' (BaseType Device),
      pred ''pin_memory'' (BaseType bool_ty)]"

text \<open>
  The \<^verbatim>\<open>while\<close> loop of \<^verbatim>\<open>Arguments.parse\<close>. \<^verbatim>\<open>kwarg_only_acc\<close> is one of two lists by
  identity; the flag \<open>acc_is_post\<close> records that it is the second one.
\<close>

record tensor_options_state =
  acc_is_post :: bool
  pre_acc :: "Argument list"
  tensor_options_acc :: "TensorOptionsArguments option"
  post_acc :: "Argument list"

definition looks_like_tensor_options :: "Argument list \<Rightarrow> nat \<Rightarrow> bool" where
  "looks_like_tensor_options kw i =
     list_all (\<lambda>(p, a). p a) (zip predicates (take (length predicates) (drop i kw)))"

function tensor_options_loop ::
  "Argument list \<Rightarrow> nat \<Rightarrow> tensor_options_state \<Rightarrow> error + tensor_options_state" where
  "tensor_options_loop kw i st =
     (if i < length kw then
        (if int i \<le> int (length kw) - int (length predicates) \<and> looks_like_tensor_options kw i
         then
           (if acc_is_post st then Inl AssertionError
            else tensor_options_loop kw (i + length predicates)
                   (st\<lparr>tensor_options_acc :=
                          Some \<lparr>dtype = kw ! i, layout = kw ! (i + 1),
                                device = kw ! (i + 2), pin_memory = kw ! (i + 3)\<rparr>,
                       acc_is_post := True\<rparr>))
         else tensor_options_loop kw (i + 1)
                (if acc_is_post st then st\<lparr>post_acc := post_acc st @ [kw ! i]\<rparr>
                 else st\<lparr>pre_acc := pre_acc st @ [kw ! i]\<rparr>))
      else Inr st)"
  by pat_completeness auto
termination
  by (relation "measure (\<lambda>(kw, i, st). length kw - i)") (auto simp: predicates_def)

declare tensor_options_loop.simps [simp del]

text \<open>The state before the loop, and the guard of the loop at index \<open>i\<close>: there is
  enough space and the next four arguments look like tensor options.\<close>

definition tensor_options_init :: tensor_options_state where
  "tensor_options_init =
     \<lparr>acc_is_post = False, pre_acc = [], tensor_options_acc = None, post_acc = []\<rparr>"

definition quad_at :: "Argument list \<Rightarrow> nat \<Rightarrow> bool" where
  "quad_at kw i =
     (int i \<le> int (length kw) - int (length predicates) \<and> looks_like_tensor_options kw i)"

text \<open>The search for \<^verbatim>\<open>self\<close>: the index of the first argument of that name.\<close>

fun self_index :: "Argument list \<Rightarrow> nat option" where
  "self_index [] = None"
| "self_index (a # as) =
     (if arg_name a = ''self'' then Some 0 else map_option Suc (self_index as))"

text \<open>\<^verbatim>\<open>Arguments.parse\<close>.\<close>

definition Arguments_parse :: "string \<Rightarrow> error + Arguments" where
  "Arguments_parse args =
     (case Arguments__preparse args of
        Inl e \<Rightarrow> Inl e
      | Inr (pos, kw, outs) \<Rightarrow>
          let (pre_self, self_a, post_self) =
                (case self_index pos of
                   Some self_ix \<Rightarrow>
                     (take self_ix pos, Some (SelfArgument (pos ! self_ix)),
                      drop (self_ix + 1) pos)
                 | None \<Rightarrow> ([], None, pos))
          in (case tensor_options_loop kw 0 tensor_options_init of
                Inl e \<Rightarrow> Inl e
              | Inr st \<Rightarrow>
                  new_Arguments
                    \<lparr>pre_self_positional = pre_self,
                     self_arg = self_a,
                     post_self_positional = post_self,
                     pre_tensor_options_kwarg_only = pre_acc st,
                     tensor_options = tensor_options_acc st,
                     post_tensor_options_kwarg_only = post_acc st,
                     out = outs\<rparr>))"

section \<open>Operator names\<close>

definition AUGMENTED_ASSIGNMENT_NAMES :: "string list" where
  "AUGMENTED_ASSIGNMENT_NAMES =
     [''add'', ''sub'', ''mul'', ''div'', ''mod'', ''pow'', ''lshift'', ''rshift'', ''and'',
      ''xor'', ''or'']"

record BaseOperatorName =
  base :: string
  inplace :: bool
  dunder_method :: bool

text \<open>\<^verbatim>\<open>BaseOperatorName.__str__\<close>.\<close>

definition BaseOperatorName_str :: "BaseOperatorName \<Rightarrow> string" where
  "BaseOperatorName_str n =
     (if dunder_method n
      then ''__'' @ (if inplace n then ''i'' else []) @ base n @ ''__''
      else base n @ (if inplace n then ''_'' else []))"

text \<open>
  \<^verbatim>\<open>re.match(r"^__([^_]+)__$", op)\<close>: group 1, a non-empty text without underscore
  between two pairs of underscores.
\<close>

definition match_dunder :: "string \<Rightarrow> string option" where
  "match_dunder op =
     (let body = dollar_body op;
          inner = take (length body - 4) (drop 2 body)
      in if 5 \<le> length body \<and> str_startswith body ''__'' \<and> str_endswith body ''__''
            \<and> CHR ''_'' \<notin> set inner
         then Some inner else None)"

text \<open>\<^verbatim>\<open>BaseOperatorName.parse\<close>.\<close>

definition BaseOperatorName_parse :: "string \<Rightarrow> error + BaseOperatorName" where
  "BaseOperatorName_parse op =
     (if op = [] then Inl AssertionError
      else if str_endswith op ''_out'' then Inl AssertionError
      else
        (case (case match_dunder op of
                 Some b \<Rightarrow>
                   if list_ex (\<lambda>n. b = ''i'' @ n) AUGMENTED_ASSIGNMENT_NAMES
                   then Inr \<lparr>base = tl b, inplace = True, dunder_method = True\<rparr>
                   else if hd b = CHR ''i'' then Inl AssertionError
                   else Inr \<lparr>base = b, inplace = False, dunder_method = True\<rparr>
               | None \<Rightarrow>
                   if last op = CHR ''_''
                   then Inr \<lparr>base = butlast op, inplace = True, dunder_method = False\<rparr>
                   else Inr \<lparr>base = op, inplace = False, dunder_method = False\<rparr>) of
           Inl e \<Rightarrow> Inl e
         | Inr r \<Rightarrow> if BaseOperatorName_str r = op then Inr r else Inl AssertionError))"

text \<open>
  \<^verbatim>\<open>OperatorName\<close>; its field \<^verbatim>\<open>name\<close>, the base operator name, is \<open>op_name\<close> here.
\<close>

record OperatorName =
  op_name :: BaseOperatorName
  overload_name :: string

definition OperatorName_str :: "OperatorName \<Rightarrow> string" where
  "OperatorName_str n =
     (if overload_name n \<noteq> []
      then BaseOperatorName_str (op_name n) @ ''.'' @ overload_name n
      else BaseOperatorName_str (op_name n))"

definition OperatorName_parse :: "string \<Rightarrow> error + OperatorName" where
  "OperatorName_parse s =
     (let (n, overload) =
            (if str_contains s ''.''
             then (case str_split1 s ''.'' of [n, ov] \<Rightarrow> (n, ov) | _ \<Rightarrow> (s, []))
             else (s, []))
      in case BaseOperatorName_parse n of
           Inl e \<Rightarrow> Inl e
         | Inr b \<Rightarrow>
             let r = \<lparr>op_name = b, overload_name = overload\<rparr>
             in if OperatorName_str r = s then Inr r else Inl AssertionError)"

section \<open>Function schema\<close>

datatype SchemaKind = Functional | Inplace | Out | Mutable

record FunctionSchema =
  name :: OperatorName
  arguments :: Arguments
  returns :: "Return list"

text \<open>\<^verbatim>\<open>FunctionSchema.is_functional_fn\<close>.\<close>

definition is_functional_fn :: "FunctionSchema \<Rightarrow> bool" where
  "is_functional_fn x = str_contains (overload_name (name x)) ''functional''"

text \<open>
  \<^verbatim>\<open>FunctionSchema.kind\<close>. Its assertion makes it fail on a schema that has out arguments
  and an inplace name.
\<close>

definition kind :: "FunctionSchema \<Rightarrow> error + SchemaKind" where
  "kind x =
     (let is_out = (out (arguments x) \<noteq> []);
          is_inplace = inplace (op_name (name x));
          is_mutable = list_ex (\<lambda>a. annotation_is_write (arg_annotation a))
                         (post_self_positional (arguments x))
      in if is_out \<and> is_inplace then Inl AssertionError
         else if is_inplace then Inr Inplace
         else if is_out then Inr Out
         else if is_mutable then Inr Mutable
         else Inr Functional)"

text \<open>
  \<^verbatim>\<open>FunctionSchema.__post_init__\<close>, one assertion after the other, and the construction.
\<close>

definition FunctionSchema_post_init :: "FunctionSchema \<Rightarrow> error + unit" where
  "FunctionSchema_post_init x =
     (let args = arguments x;
          out_and_self = out args @ filter (\<lambda>a. arg_name a = ''self'') (flat_positional args);
          mutable_returns = filter (\<lambda>r. annotation_is_write (ret_annotation r)) (returns x);
          immutable_returns =
            filter (\<lambda>r. \<not> annotation_is_write (ret_annotation r)) (returns x)
      in if \<not> list_all (\<lambda>(a, r). arg_annotation a = ret_annotation r) (zip (out args) (returns x))
         then Inl AssertionError
         else if \<not> list_all (\<lambda>a. \<not> list_ex (\<lambda>r. arg_annotation a = ret_annotation r) (returns x))
                    (post_self_positional_mutable args)
         then Inl AssertionError
         else if \<not> (length mutable_returns = 0 \<or> length immutable_returns = 0)
         then Inl AssertionError
         else if \<not> list_all (\<lambda>r. list_ex (\<lambda>a. ret_annotation r = arg_annotation a) out_and_self)
                    mutable_returns
         then Inl AssertionError
         else if out args \<noteq> [] \<and>
                 (if list_ex (\<lambda>a. arg_type a \<noteq> BaseType Tensor) (out args)
                  then length (returns x) \<noteq> 0
                  else length (out args) \<noteq> length (returns x))
         then Inl AssertionError
         else if inplace (op_name (name x)) \<and>
                 (case self_arg args of
                    None \<Rightarrow> True
                  | Some self_a \<Rightarrow>
                      (case arg_annotation (argument self_a) of
                         None \<Rightarrow> True
                       | Some ann \<Rightarrow>
                           \<not> is_write ann \<or>
                           (if arg_type (argument self_a) = BaseType Tensor
                            then \<not> (length (returns x) = 1 \<and>
                                    ret_annotation (returns x ! 0) = arg_annotation (argument self_a))
                            else length (returns x) \<noteq> 0)))
         then Inl AssertionError
         else if tensor_options args \<noteq> None \<and> kind x \<noteq> Inr Functional
         then Inl AssertionError
         else if is_functional_fn x \<and> kind x \<noteq> Inr Functional
         then Inl AssertionError
         else Inr ())"

definition new_FunctionSchema :: "FunctionSchema \<Rightarrow> error + FunctionSchema" where
  "new_FunctionSchema x =
     (case FunctionSchema_post_init x of Inl e \<Rightarrow> Inl e | Inr u \<Rightarrow> Inr x)"

text \<open>\<^verbatim>\<open>FunctionSchema.__str__\<close>.\<close>

definition FunctionSchema_str :: "FunctionSchema \<Rightarrow> error + string" where
  "FunctionSchema_str x =
     (case Arguments_str (arguments x) of
        Inl e \<Rightarrow> Inl e
      | Inr all_arguments_str \<Rightarrow>
          (case map_err Return_str (returns x) of
             Inl e \<Rightarrow> Inl e
           | Inr rs \<Rightarrow>
               let ret = (if length rs = 1 then rs ! 0 else ''('' @ str_join '', '' rs @ '')'')
               in Inr (OperatorName_str (name x) @ ''('' @ all_arguments_str @ '') -> '' @ ret)))"

text \<open>
  \<^verbatim>\<open>parse_returns\<close>. Indexing the empty string raises \<^verbatim>\<open>IndexError\<close>.
\<close>

definition parse_returns :: "string \<Rightarrow> error + Return list" where
  "parse_returns return_decl =
     (if return_decl = ''()'' then Inr []
      else if return_decl = [] then Inl IndexError
      else
        let d = (if hd return_decl = CHR ''('' \<and> last return_decl = CHR '')''
                 then butlast (tl return_decl) else return_decl)
        in map_err Return_parse (str_split d '', ''))"

text \<open>
  \<^verbatim>\<open>decl_re.findall(func)\<close> for the pattern
  \<^verbatim>\<open>(?P<name>[^\(]+)\((?P<args>.*)\) -> (?P<returns>.*)\<close>. A match that starts at the
  head of \<open>s\<close> takes the text up to the first opening parenthesis as the name, which
  must be non-empty; the arguments and the returns stay on the line that follows that
  parenthesis, and the greedy arguments end at the last \<^verbatim>\<open>") -> "\<close> of the line.
  \<open>decl_match_at\<close> gives the three groups and the text after the match; \<open>decl_findall\<close>
  looks for a match at each position from the left and goes on after each match.
\<close>

definition decl_match_at :: "string \<Rightarrow> ((string \<times> string \<times> string) \<times> string) option" where
  "decl_match_at s =
     (let nm = takeWhile (\<lambda>c. c \<noteq> CHR ''('') s;
          r = dropWhile (\<lambda>c. c \<noteq> CHR ''('') s
      in if nm = [] \<or> r = [] then None
         else
           let line = takeWhile (\<lambda>c. c \<noteq> newline) (tl r);
               rest = dropWhile (\<lambda>c. c \<noteq> newline) (tl r)
           in case str_rfind line '') -> '' of
                None \<Rightarrow> None
              | Some k \<Rightarrow>
                  Some ((nm, take k line, drop (k + length '') -> '') line), rest))"

function decl_findall :: "string \<Rightarrow> (string \<times> string \<times> string) list" where
  "decl_findall s =
     (if s = [] then []
      else (case decl_match_at s of
              Some (m, rest) \<Rightarrow> m # decl_findall rest
            | None \<Rightarrow> decl_findall (tl s)))"
  by pat_completeness auto
termination
proof (relation "measure length")
  show "wf (measure length)" by simp
next
  fix s :: string and x2 m rest
  assume "s \<noteq> []" and "decl_match_at s = Some x2" and "(m, rest) = x2"
  then have rest: "rest = dropWhile (\<lambda>c. c \<noteq> newline) (tl (dropWhile (\<lambda>c. c \<noteq> CHR ''('') s))"
    and ne: "dropWhile (\<lambda>c. c \<noteq> CHR ''('') s \<noteq> []"
    by (auto simp: decl_match_at_def Let_def split: if_splits option.splits)
  have "length rest \<le> length (tl (dropWhile (\<lambda>c. c \<noteq> CHR ''('') s))"
    unfolding rest by (rule length_dropWhile_le)
  also have "\<dots> < length (dropWhile (\<lambda>c. c \<noteq> CHR ''('') s)"
    using ne by (cases "dropWhile (\<lambda>c. c \<noteq> CHR ''('') s") auto
  also have "\<dots> \<le> length s"
    by (rule length_dropWhile_le)
  finally show "(rest, s) \<in> measure length" by simp
next
  fix s :: string
  assume "s \<noteq> []"
  then show "(tl s, s) \<in> measure length" by (cases s) auto
qed

declare decl_findall.simps [simp del]

text \<open>\<^verbatim>\<open>FunctionSchema.parse\<close>.\<close>

definition FunctionSchema_parse :: "string \<Rightarrow> error + FunctionSchema" where
  "FunctionSchema_parse func =
     (case decl_findall func of
        [(ops, args, return_decl)] \<Rightarrow>
          (case OperatorName_parse ops of
             Inl e \<Rightarrow> Inl e
           | Inr n \<Rightarrow>
               (case Arguments_parse args of
                  Inl e \<Rightarrow> Inl e
                | Inr a \<Rightarrow>
                    (case parse_returns return_decl of
                       Inl e \<Rightarrow> Inl e
                     | Inr rs \<Rightarrow>
                         (case new_FunctionSchema \<lparr>name = n, arguments = a, returns = rs\<rparr> of
                            Inl e \<Rightarrow> Inl e
                          | Inr r \<Rightarrow>
                              if FunctionSchema_str r = Inr func then Inr r
                              else Inl AssertionError))))
      | _ \<Rightarrow> Inl AssertionError)"

text \<open>
  \<^verbatim>\<open>FunctionSchema.signature\<close> with its three keywords, and the call without keywords.
  The two schemas named \<^verbatim>\<open>arange.start_step\<close> and \<^verbatim>\<open>bernoulli.p\<close> have their stripped
  arguments printed, edited and parsed again.
\<close>

definition strip_ret_annotation :: "bool \<Rightarrow> Return \<Rightarrow> Return" where
  "strip_ret_annotation keep_return_names r =
     \<lparr>ret_name = (if keep_return_names then ret_name r else None),
      ret_type = ret_type r, ret_annotation = None\<rparr>"

definition reparse_with_default :: "string \<Rightarrow> string \<Rightarrow> Arguments \<Rightarrow> error + Arguments" where
  "reparse_with_default old new args_sig =
     (case Arguments_str args_sig of
        Inl e \<Rightarrow> Inl e
      | Inr s \<Rightarrow> Arguments_parse (str_replace s old new))"

definition signature_kw :: "bool \<Rightarrow> bool \<Rightarrow> bool \<Rightarrow> FunctionSchema \<Rightarrow> error + FunctionSchema" where
  "signature_kw strip_default strip_view_copy_name keep_return_names x =
     (let b = base (op_name (name x));
          base_name = (if strip_view_copy_name \<and> str_endswith b ''_copy''
                       then str_replace b ''_copy'' [] else b);
          returns_from_mutable_inputs =
            map (\<lambda>a. \<lparr>ret_name = (if keep_return_names then Some (arg_name a @ ''_out'') else None),
                      ret_type = arg_type a, ret_annotation = None\<rparr>)
              (filter (\<lambda>a. annotation_is_write (arg_annotation a) \<and>
                            \<not> list_ex (\<lambda>r. arg_annotation a = ret_annotation r) (returns x))
                 ((case self_arg (arguments x) of Some s \<Rightarrow> [argument s] | None \<Rightarrow> [])
                  @ out (arguments x) @ post_self_positional (arguments x)));
          original_returns = map (strip_ret_annotation keep_return_names) (returns x);
          rets = original_returns @ returns_from_mutable_inputs
      in case Arguments_signature strip_default (arguments x) of
           Inl e \<Rightarrow> Inl e
         | Inr args_sig \<Rightarrow>
             (case (if OperatorName_str (name x) = ''arange.start_step''
                    then reparse_with_default ''Scalar step'' ''Scalar step=1'' args_sig
                    else Inr args_sig) of
                Inl e \<Rightarrow> Inl e
              | Inr args_sig1 \<Rightarrow>
                  (case (if OperatorName_str (name x) = ''bernoulli.p''
                         then reparse_with_default ''float p'' ''float p=0.5'' args_sig1
                         else Inr args_sig1) of
                     Inl e \<Rightarrow> Inl e
                   | Inr args_sig2 \<Rightarrow>
                       new_FunctionSchema
                         \<lparr>name = \<lparr>op_name = \<lparr>base = base_name, inplace = False,
                                             dunder_method = dunder_method (op_name (name x))\<rparr>,
                                  overload_name = []\<rparr>,
                          arguments = args_sig2,
                          returns = rets\<rparr>)))"

definition signature :: "FunctionSchema \<Rightarrow> error + FunctionSchema" where
  "signature x = signature_kw False False False x"

section \<open>Function groups\<close>

text \<open>
  Of \<^verbatim>\<open>NativeFunction\<close>, the fields that \<^verbatim>\<open>NativeFunctionsGroup\<close> reads. The fields of the
  group, \<^verbatim>\<open>functional\<close>, \<^verbatim>\<open>inplace\<close>, \<^verbatim>\<open>mutable\<close> and \<^verbatim>\<open>out\<close>, carry the prefix \<open>grp_\<close>.
\<close>

record NativeFunction =
  func :: FunctionSchema
  structured :: bool
  structured_delegate :: "OperatorName option"
  has_composite_implicit_autograd_kernel :: bool
  tags :: "string set"
  autogen :: "OperatorName list"

record NativeFunctionsGroup =
  grp_functional :: NativeFunction
  grp_inplace :: "NativeFunction option"
  grp_mutable :: "NativeFunction option"
  grp_out :: NativeFunction

text \<open>\<^verbatim>\<open>NativeFunctionsGroup.functions\<close>, in the order of its \<^verbatim>\<open>yield\<close>s.\<close>

definition group_functions :: "NativeFunctionsGroup \<Rightarrow> NativeFunction list" where
  "group_functions g =
     [grp_functional g, grp_out g]
     @ (case grp_inplace g of None \<Rightarrow> [] | Some f \<Rightarrow> [f])
     @ (case grp_mutable g of None \<Rightarrow> [] | Some f \<Rightarrow> [f])"

text \<open>
  The first loop of \<^verbatim>\<open>NativeFunctionsGroup.__post_init__\<close>. The message of the error
  prints both signatures, so a signature that cannot be printed raises before the
  mismatch error does.
\<close>

fun check_signatures :: "FunctionSchema \<Rightarrow> NativeFunction list \<Rightarrow> error + unit" where
  "check_signatures test_sig [] = Inr ()"
| "check_signatures test_sig (f # fs) =
     (case signature (func f) of
        Inl e \<Rightarrow> Inl e
      | Inr sig_f \<Rightarrow>
          if test_sig \<noteq> sig_f then
            (case FunctionSchema_str test_sig of
               Inl e \<Rightarrow> Inl e
             | Inr s1 \<Rightarrow>
                 (case FunctionSchema_str sig_f of
                    Inl e \<Rightarrow> Inl e
                  | Inr s2 \<Rightarrow> Inl SignatureMismatch))
          else check_signatures test_sig fs)"

text \<open>
  \<^verbatim>\<open>NativeFunctionsGroup.__post_init__\<close>. After the first loop the variable \<^verbatim>\<open>f\<close> is the
  last member that \<^verbatim>\<open>functions\<close> yields, and \<^verbatim>\<open>f.autogen\<close> is read from it.
\<close>

definition NativeFunctionsGroup_post_init :: "NativeFunctionsGroup \<Rightarrow> error + unit" where
  "NativeFunctionsGroup_post_init g =
     (case signature (func (grp_functional g)) of
        Inl e \<Rightarrow> Inl e
      | Inr test_sig \<Rightarrow>
          (case check_signatures test_sig (group_functions g) of
             Inl e \<Rightarrow> Inl e
           | Inr u \<Rightarrow>
               if kind (func (grp_functional g)) \<noteq> Inr Functional then Inl AssertionError
               else if kind (func (grp_out g)) \<noteq> Inr Out then Inl AssertionError
               else if (case grp_inplace g of
                          None \<Rightarrow> False | Some f \<Rightarrow> kind (func f) \<noteq> Inr Inplace)
               then Inl AssertionError
               else if (case grp_mutable g of
                          None \<Rightarrow> False | Some f \<Rightarrow> kind (func f) \<noteq> Inr Mutable)
               then Inl AssertionError
               else if structured (grp_out g) \<and>
                       (has_composite_implicit_autograd_kernel (grp_out g) \<or>
                        structured_delegate (grp_functional g) \<noteq> Some (name (func (grp_out g))) \<or>
                        (case grp_inplace g of
                           None \<Rightarrow> False
                         | Some f \<Rightarrow> structured_delegate f \<noteq> Some (name (func (grp_out g)))))
               then Inl AssertionError
               else
                 let generated_fns =
                       map (\<lambda>f. OperatorName_str (name (func f)))
                         (filter (\<lambda>f. ''generated'' \<in> tags f) (group_functions g));
                     generated_fns_str = str_join '', '' generated_fns;
                     expected_generated_fns = autogen (last (group_functions g));
                     expected_generated_fns_str =
                       str_join '', '' (map OperatorName_str expected_generated_fns)
                 in if length expected_generated_fns = 0 \<and> length generated_fns > 0
                    then Inl RuntimeError
                    else if expected_generated_fns_str \<noteq> generated_fns_str
                    then Inl RuntimeError
                    else Inr ()))"

definition new_NativeFunctionsGroup :: "NativeFunctionsGroup \<Rightarrow> error + NativeFunctionsGroup" where
  "new_NativeFunctionsGroup g =
     (case NativeFunctionsGroup_post_init g of Inl e \<Rightarrow> Inl e | Inr u \<Rightarrow> Inr g)"

text \<open>
  \<^verbatim>\<open>NativeFunctionsGroup.from_dict\<close>. The dictionary maps schema kinds to functions;
  after the four \<^verbatim>\<open>pop\<close>s it is empty, since there are four kinds.
\<close>

definition from_dict ::
  "(SchemaKind \<rightharpoonup> NativeFunction) \<Rightarrow> error + NativeFunctionsGroup option" where
  "from_dict d =
     (let n = length (filter (\<lambda>k. d k \<noteq> None) [Functional, Inplace, Out, Mutable])
      in if n = 0 then Inl AssertionError
         else if n = 1 then Inr None
         else (case d Functional of
                 None \<Rightarrow> Inl AssertionError
               | Some functional \<Rightarrow>
                   (case d Out of
                      None \<Rightarrow> Inr None
                    | Some out_f \<Rightarrow>
                        (case new_NativeFunctionsGroup
                                \<lparr>grp_functional = functional, grp_inplace = d Inplace,
                                 grp_mutable = d Mutable, grp_out = out_f\<rparr> of
                           Inl e \<Rightarrow> Inl e
                         | Inr g \<Rightarrow> Inr (Some g)))))"

section \<open>Example schemas\<close>

text \<open>
  The schemas of the examples, as the records that \<open>FunctionSchema_parse\<close> gives for
  them (see \<open>examples_parse\<close> below).
\<close>

definition plain_arg :: "string \<Rightarrow> Type \<Rightarrow> string option \<Rightarrow> Argument" where
  "plain_arg n ty d = \<lparr>arg_name = n, arg_type = ty, arg_default = d, arg_annotation = None\<rparr>"

definition write_a :: Annotation where
  "write_a = \<lparr>alias_set = [''a''], is_write = True, alias_set_after = []\<rparr>"

definition tensor_a_arg :: "string \<Rightarrow> Argument" where
  "tensor_a_arg n =
     \<lparr>arg_name = n, arg_type = BaseType Tensor, arg_default = None,
      arg_annotation = Some write_a\<rparr>"

definition plain_ret :: "Type \<Rightarrow> Return" where
  "plain_ret ty = \<lparr>ret_name = None, ret_type = ty, ret_annotation = None\<rparr>"

definition tensor_a_ret :: Return where
  "tensor_a_ret = \<lparr>ret_name = None, ret_type = BaseType Tensor, ret_annotation = Some write_a\<rparr>"

definition op :: "string \<Rightarrow> bool \<Rightarrow> string \<Rightarrow> OperatorName" where
  "op b i ov = \<lparr>op_name = \<lparr>base = b, inplace = i, dunder_method = False\<rparr>, overload_name = ov\<rparr>"

text \<open>\<^verbatim>\<open>add.Tensor(Tensor self, Tensor other, *, Scalar alpha=1) -> Tensor\<close>\<close>

definition add_Tensor :: FunctionSchema where
  "add_Tensor =
     \<lparr>name = op ''add'' False ''Tensor'',
      arguments =
        \<lparr>pre_self_positional = [],
         self_arg = Some (SelfArgument (plain_arg ''self'' (BaseType Tensor) None)),
         post_self_positional = [plain_arg ''other'' (BaseType Tensor) None],
         pre_tensor_options_kwarg_only = [plain_arg ''alpha'' (BaseType Scalar) (Some ''1'')],
         tensor_options = None,
         post_tensor_options_kwarg_only = [],
         out = []\<rparr>,
      returns = [plain_ret (BaseType Tensor)]\<rparr>"

text \<open>\<^verbatim>\<open>add_.Tensor(Tensor(a!) self, Tensor other, *, Scalar alpha=1) -> Tensor(a!)\<close>\<close>

definition add__Tensor :: FunctionSchema where
  "add__Tensor =
     \<lparr>name = op ''add'' True ''Tensor'',
      arguments =
        \<lparr>pre_self_positional = [],
         self_arg = Some (SelfArgument (tensor_a_arg ''self'')),
         post_self_positional = [plain_arg ''other'' (BaseType Tensor) None],
         pre_tensor_options_kwarg_only = [plain_arg ''alpha'' (BaseType Scalar) (Some ''1'')],
         tensor_options = None,
         post_tensor_options_kwarg_only = [],
         out = []\<rparr>,
      returns = [tensor_a_ret]\<rparr>"

text \<open>\<^verbatim>\<open>add.out(Tensor self, Tensor other, *, Scalar alpha=1, Tensor(a!) out) -> Tensor(a!)\<close>\<close>

definition add_out :: FunctionSchema where
  "add_out =
     \<lparr>name = op ''add'' False ''out'',
      arguments =
        \<lparr>pre_self_positional = [],
         self_arg = Some (SelfArgument (plain_arg ''self'' (BaseType Tensor) None)),
         post_self_positional = [plain_arg ''other'' (BaseType Tensor) None],
         pre_tensor_options_kwarg_only = [plain_arg ''alpha'' (BaseType Scalar) (Some ''1'')],
         tensor_options = None,
         post_tensor_options_kwarg_only = [],
         out = [tensor_a_arg ''out'']\<rparr>,
      returns = [tensor_a_ret]\<rparr>"

text \<open>\<^verbatim>\<open>add_.out(Tensor(a!) self, *, Tensor(a!) out) -> Tensor(a!)\<close>: an inplace name
  together with an out argument.\<close>

definition add__out :: FunctionSchema where
  "add__out =
     \<lparr>name = op ''add'' True ''out'',
      arguments =
        \<lparr>pre_self_positional = [],
         self_arg = Some (SelfArgument (tensor_a_arg ''self'')),
         post_self_positional = [],
         pre_tensor_options_kwarg_only = [],
         tensor_options = None,
         post_tensor_options_kwarg_only = [],
         out = [tensor_a_arg ''out'']\<rparr>,
      returns = [tensor_a_ret]\<rparr>"

text \<open>\<^verbatim>\<open>foo(Tensor self, Tensor(a!) buf) -> ()\<close>: a mutable positional argument.\<close>

definition foo_mutable :: FunctionSchema where
  "foo_mutable =
     \<lparr>name = op ''foo'' False [],
      arguments =
        \<lparr>pre_self_positional = [],
         self_arg = Some (SelfArgument (plain_arg ''self'' (BaseType Tensor) None)),
         post_self_positional = [tensor_a_arg ''buf''],
         pre_tensor_options_kwarg_only = [],
         tensor_options = None,
         post_tensor_options_kwarg_only = [],
         out = []\<rparr>,
      returns = []\<rparr>"

text \<open>\<^verbatim>\<open>_foo(Tensor self, *, ScalarType dtype, Layout layout, Device device, bool pin_memory)
  -> Tensor\<close>, and its four kwarg-only arguments.\<close>

definition options_quad :: "Argument list" where
  "options_quad =
     [plain_arg ''dtype'' (BaseType ScalarType) None, plain_arg ''layout'' (BaseType Layout) None,
      plain_arg ''device'' (BaseType Device) None, plain_arg ''pin_memory'' (BaseType bool_ty) None]"

definition foo_factory :: FunctionSchema where
  "foo_factory =
     \<lparr>name = op ''_foo'' False [],
      arguments =
        \<lparr>pre_self_positional = [],
         self_arg = Some (SelfArgument (plain_arg ''self'' (BaseType Tensor) None)),
         post_self_positional = [],
         pre_tensor_options_kwarg_only = [],
         tensor_options =
           Some \<lparr>dtype = plain_arg ''dtype'' (BaseType ScalarType) None,
                 layout = plain_arg ''layout'' (BaseType Layout) None,
                 device = plain_arg ''device'' (BaseType Device) None,
                 pin_memory = plain_arg ''pin_memory'' (BaseType bool_ty) None\<rparr>,
         post_tensor_options_kwarg_only = [],
         out = []\<rparr>,
      returns = [plain_ret (BaseType Tensor)]\<rparr>"

text \<open>\<^verbatim>\<open>sub.out(Tensor self, Tensor other, *, Scalar alpha=1, Tensor(a!) out) -> Tensor(a!)\<close>\<close>

definition sub_out :: FunctionSchema where
  "sub_out = add_out\<lparr>name := op ''sub'' False ''out''\<rparr>"

text \<open>
  \<^verbatim>\<open>bernoulli.p(float p, *, ScalarType dtype, ScalarType dtype, Layout layout, Device device,
  bool pin_memory, Layout layout, Device device, bool pin_memory) -> Tensor\<close>: one of the
  two names that \<^verbatim>\<open>signature\<close> treats apart, with the four tensor options between a
  second \<^verbatim>\<open>dtype\<close> and a second \<^verbatim>\<open>layout\<close>, \<^verbatim>\<open>device\<close>, \<^verbatim>\<open>pin_memory\<close>.
\<close>

definition bernoulli_p_dup :: FunctionSchema where
  "bernoulli_p_dup =
     \<lparr>name = op ''bernoulli'' False ''p'',
      arguments =
        \<lparr>pre_self_positional = [],
         self_arg = None,
         post_self_positional = [plain_arg ''p'' (BaseType float_ty) None],
         pre_tensor_options_kwarg_only = [plain_arg ''dtype'' (BaseType ScalarType) None],
         tensor_options =
           Some \<lparr>dtype = plain_arg ''dtype'' (BaseType ScalarType) None,
                 layout = plain_arg ''layout'' (BaseType Layout) None,
                 device = plain_arg ''device'' (BaseType Device) None,
                 pin_memory = plain_arg ''pin_memory'' (BaseType bool_ty) None\<rparr>,
         post_tensor_options_kwarg_only = tl options_quad,
         out = []\<rparr>,
      returns = [plain_ret (BaseType Tensor)]\<rparr>"

text \<open>The value of \<^verbatim>\<open>signature()\<close> on it (see \<open>bernoulli_p_dup_signature_eq\<close> below).\<close>

definition bernoulli_p_dup_signature :: FunctionSchema where
  "bernoulli_p_dup_signature =
     \<lparr>name = op ''bernoulli'' False [],
      arguments =
        \<lparr>pre_self_positional = [],
         self_arg = None,
         post_self_positional = [plain_arg ''p'' (BaseType float_ty) (Some ''0.5'')],
         pre_tensor_options_kwarg_only = [],
         tensor_options =
           Some \<lparr>dtype = plain_arg ''dtype'' (BaseType ScalarType) None,
                 layout = plain_arg ''layout'' (BaseType Layout) None,
                 device = plain_arg ''device'' (BaseType Device) None,
                 pin_memory = plain_arg ''pin_memory'' (BaseType bool_ty) None\<rparr>,
         post_tensor_options_kwarg_only = [],
         out = []\<rparr>,
      returns = [plain_ret (BaseType Tensor)]\<rparr>"

text \<open>A function with nothing but its schema, and two groups.\<close>

definition native_function :: "FunctionSchema \<Rightarrow> NativeFunction" where
  "native_function f =
     \<lparr>func = f, structured = False, structured_delegate = None,
      has_composite_implicit_autograd_kernel = False, tags = {}, autogen = []\<rparr>"

definition add_group :: NativeFunctionsGroup where
  "add_group =
     \<lparr>grp_functional = native_function add_Tensor,
      grp_inplace = Some (native_function add__Tensor),
      grp_mutable = None,
      grp_out = native_function add_out\<rparr>"

definition add_sub_group :: NativeFunctionsGroup where
  "add_sub_group =
     \<lparr>grp_functional = native_function add_Tensor,
      grp_inplace = None,
      grp_mutable = None,
      grp_out = native_function sub_out\<rparr>"

section \<open>Notions for the proofs\<close>

text \<open>An argument is printable when \<^verbatim>\<open>str\<close> does not raise on it.\<close>

definition printable :: "Argument \<Rightarrow> bool" where
  "printable a = (\<exists>s. Argument_str a = Inr s)"

section \<open>Construction\<close>

lemma new_FunctionSchema_Inr:
  "new_FunctionSchema x = Inr y \<Longrightarrow> y = x \<and> FunctionSchema_post_init x = Inr ()"
  by (auto simp: new_FunctionSchema_def split: sum.splits)

lemma new_FunctionSchema_cases:
  "new_FunctionSchema x = Inr x \<or> new_FunctionSchema x = Inl AssertionError"
  by (simp add: new_FunctionSchema_def FunctionSchema_post_init_def Let_def)

lemma examples_parse:
  "FunctionSchema_parse ''add.Tensor(Tensor self, Tensor other, *, Scalar alpha=1) -> Tensor''
     = Inr add_Tensor"
  "FunctionSchema_parse
     ''add_.Tensor(Tensor(a!) self, Tensor other, *, Scalar alpha=1) -> Tensor(a!)''
     = Inr add__Tensor"
  "FunctionSchema_parse
     ''add.out(Tensor self, Tensor other, *, Scalar alpha=1, Tensor(a!) out) -> Tensor(a!)''
     = Inr add_out"
  "FunctionSchema_parse ''add_.out(Tensor(a!) self, *, Tensor(a!) out) -> Tensor(a!)''
     = Inr add__out"
  "FunctionSchema_parse ''foo(Tensor self, Tensor(a!) buf) -> ()'' = Inr foo_mutable"
  "FunctionSchema_parse
     ''_foo(Tensor self, *, ScalarType dtype, Layout layout, Device device, bool pin_memory) -> Tensor''
     = Inr foo_factory"
  "FunctionSchema_parse
     ''sub.out(Tensor self, Tensor other, *, Scalar alpha=1, Tensor(a!) out) -> Tensor(a!)''
     = Inr sub_out"
  by code_simp+

lemma bernoulli_p_dup_parse:
  "FunctionSchema_parse
     (''bernoulli.p(float p, *, ScalarType dtype, ScalarType dtype, Layout layout, '' @
      ''Device device, bool pin_memory, Layout layout, Device device, bool pin_memory) -> Tensor'')
     = Inr bernoulli_p_dup"
  by code_simp

lemma examples_constructed:
  "new_FunctionSchema add_Tensor = Inr add_Tensor"
  "new_FunctionSchema add__Tensor = Inr add__Tensor"
  "new_FunctionSchema add_out = Inr add_out"
  "new_FunctionSchema add__out = Inr add__out"
  "new_FunctionSchema foo_mutable = Inr foo_mutable"
  by code_simp+

section \<open>Cross-field invariants of a schema\<close>

text \<open>
  Claim C6. A schema that was constructed and has at least one out argument has no
  return when some out argument is not of type \<^verbatim>\<open>Tensor\<close>, and as many returns as out
  arguments otherwise. Construction fails with an assertion error in every other case,
  since \<open>new_FunctionSchema\<close> then does not give a schema.
\<close>

theorem out_arguments_fix_number_of_returns:
  assumes "new_FunctionSchema x = Inr y" and "out (arguments y) \<noteq> []"
  shows "if list_ex (\<lambda>a. arg_type a \<noteq> BaseType Tensor) (out (arguments y))
         then returns y = []
         else length (returns y) = length (out (arguments y))"
proof -
  from assms(1) have y: "y = x" and ok: "FunctionSchema_post_init x = Inr ()"
    by (auto dest: new_FunctionSchema_Inr)
  from ok assms(2) show ?thesis
    unfolding y FunctionSchema_post_init_def Let_def
    by (simp split: if_splits)
qed

theorem out_arguments_fix_number_of_returns_witness:
  "new_FunctionSchema add_out = Inr add_out \<and> out (arguments add_out) \<noteq> [] \<and>
   length (returns add_out) = length (out (arguments add_out))"
proof -
  have c: "new_FunctionSchema add_out = Inr add_out" by (rule examples_constructed)
  have o: "out (arguments add_out) \<noteq> []" by (simp add: add_out_def)
  have t: "\<not> list_ex (\<lambda>a. arg_type a \<noteq> BaseType Tensor) (out (arguments add_out))"
    by (simp add: add_out_def tensor_a_arg_def)
  from out_arguments_fix_number_of_returns [OF c o] t c o show ?thesis by simp
qed

text \<open>
  Claim C7. A schema that was constructed and whose operator name encodes inplace has a
  \<^verbatim>\<open>self\<close> argument with a write annotation; when the type of \<^verbatim>\<open>self\<close> is the bare
  \<^verbatim>\<open>Tensor\<close> there is exactly one return and its annotation is that of \<^verbatim>\<open>self\<close>, and
  otherwise there is no return.
\<close>

theorem inplace_name_needs_mutable_self:
  assumes "new_FunctionSchema x = Inr y" and "inplace (op_name (name y))"
  shows "\<exists>s ann. self_arg (arguments y) = Some s \<and> arg_annotation (argument s) = Some ann \<and>
           is_write ann \<and>
           (if arg_type (argument s) = BaseType Tensor
            then \<exists>r. returns y = [r] \<and> ret_annotation r = Some ann
            else returns y = [])"
proof -
  from assms(1) have y: "y = x" and ok: "FunctionSchema_post_init x = Inr ()"
    by (auto dest: new_FunctionSchema_Inr)
  from ok assms(2) show ?thesis
    unfolding y FunctionSchema_post_init_def Let_def
    by (auto split: if_splits option.splits simp: length_Suc_conv)
qed

theorem inplace_name_needs_mutable_self_witness:
  "new_FunctionSchema add__Tensor = Inr add__Tensor \<and> inplace (op_name (name add__Tensor)) \<and>
   (\<exists>s ann. self_arg (arguments add__Tensor) = Some s \<and>
      arg_annotation (argument s) = Some ann \<and> is_write ann \<and>
      (if arg_type (argument s) = BaseType Tensor
       then \<exists>r. returns add__Tensor = [r] \<and> ret_annotation r = Some ann
       else returns add__Tensor = []))"
proof -
  have c: "new_FunctionSchema add__Tensor = Inr add__Tensor" by (rule examples_constructed)
  have i: "inplace (op_name (name add__Tensor))" by (simp add: add__Tensor_def op_def)
  from inplace_name_needs_mutable_self [OF c i] c i show ?thesis by blast
qed

section \<open>The kind of a schema\<close>

text \<open>
  Claim C2, as the source has it. \<open>kind\<close> fails with an assertion error on a schema with
  out arguments and an inplace name; on every other schema it returns: out when there
  are out arguments, inplace when the name encodes inplace, mutable when an argument
  after \<^verbatim>\<open>self\<close> has a write annotation, and functional otherwise, in this order.
\<close>

theorem kind_precedence:
  "kind x =
     (if out (arguments x) \<noteq> [] \<and> inplace (op_name (name x)) then Inl AssertionError
      else if out (arguments x) \<noteq> [] then Inr Out
      else if inplace (op_name (name x)) then Inr Inplace
      else if list_ex Argument_is_write (post_self_positional (arguments x)) then Inr Mutable
      else Inr Functional)"
  by (simp add: kind_def Let_def Argument_is_write_def [abs_def])

theorem kind_precedence_witness:
  "kind add_out = Inr Out \<and> kind add__Tensor = Inr Inplace \<and> kind foo_mutable = Inr Mutable \<and>
   kind add_Tensor = Inr Functional \<and> kind add__out = Inl AssertionError"
proof -
  have "kind add_out = Inr Out"
    using kind_precedence [of add_out] by (simp add: add_out_def op_def)
  moreover have "kind add__Tensor = Inr Inplace"
    using kind_precedence [of add__Tensor] by (simp add: add__Tensor_def op_def)
  moreover have "kind foo_mutable = Inr Mutable"
    using kind_precedence [of foo_mutable]
    by (simp add: foo_mutable_def op_def tensor_a_arg_def write_a_def Argument_is_write_def
        annotation_is_write_def)
  moreover have "kind add_Tensor = Inr Functional"
    using kind_precedence [of add_Tensor]
    by (simp add: add_Tensor_def op_def plain_arg_def Argument_is_write_def
        annotation_is_write_def)
  moreover have "kind add__out = Inl AssertionError"
    using kind_precedence [of add__out] by (simp add: add__out_def op_def)
  ultimately show ?thesis by simp
qed

text \<open>
  The claim as it is written fails: the schema
  \<^verbatim>\<open>add_.out(Tensor(a!) self, *, Tensor(a!) out) -> Tensor(a!)\<close> is constructed, it has an out
  argument, and its kind is not out.
\<close>

theorem kind_out_regardless_of_inplace_counterexample:
  "new_FunctionSchema add__out = Inr add__out \<and> out (arguments add__out) \<noteq> [] \<and>
   kind add__out \<noteq> Inr Out"
proof -
  have "new_FunctionSchema add__out = Inr add__out" by code_simp
  moreover have "out (arguments add__out) \<noteq> []" by (simp add: add__out_def)
  moreover have "kind add__out \<noteq> Inr Out"
    by (simp add: kind_def add__out_def op_def)
  ultimately show ?thesis by simp
qed

section \<open>Parsing and printing\<close>

text \<open>Each parser ends with the assertion that its result prints as its input.\<close>

lemma Type_parse_roundtrip: "Type_parse s = Inr t \<Longrightarrow> Type_str t = s"
  by (subst (asm) Type_parse.simps) (auto split: sum.splits if_splits)

lemma Annotation_parse_roundtrip: "Annotation_parse s = Inr a \<Longrightarrow> Annotation_str a = s"
  by (auto simp: Annotation_parse_def Let_def split: option.splits if_splits)

lemma Argument_parse_roundtrip: "Argument_parse s = Inr a \<Longrightarrow> Argument_str a = Inr s"
  by (auto simp: Argument_parse_def Let_def split: list.splits sum.splits if_splits)

lemma Return_parse_roundtrip: "Return_parse s = Inr r \<Longrightarrow> Return_str r = Inr s"
  by (auto simp: Return_parse_def Let_def split: prod.splits sum.splits if_splits)

lemma OperatorName_parse_roundtrip: "OperatorName_parse s = Inr n \<Longrightarrow> OperatorName_str n = s"
  by (auto simp: OperatorName_parse_def Let_def split: prod.splits sum.splits if_splits)

lemma FunctionSchema_parse_roundtrip:
  "FunctionSchema_parse s = Inr x \<Longrightarrow> FunctionSchema_str x = Inr s"
  by (auto simp: FunctionSchema_parse_def split: list.splits prod.splits sum.splits if_splits)

text \<open>
  Claim C1. For every string that \<open>FunctionSchema_parse\<close> accepts, and likewise for
  \<open>Type_parse\<close>, \<open>Annotation_parse\<close>, \<open>Argument_parse\<close>, \<open>Return_parse\<close> and
  \<open>OperatorName_parse\<close>, printing the parsed value succeeds and gives the string back.
\<close>

theorem parse_then_print_is_identity:
  "(FunctionSchema_parse s1 = Inr x \<longrightarrow> FunctionSchema_str x = Inr s1) \<and>
   (Type_parse s2 = Inr t \<longrightarrow> Type_str t = s2) \<and>
   (Annotation_parse s3 = Inr ann \<longrightarrow> Annotation_str ann = s3) \<and>
   (Argument_parse s4 = Inr a \<longrightarrow> Argument_str a = Inr s4) \<and>
   (Return_parse s5 = Inr r \<longrightarrow> Return_str r = Inr s5) \<and>
   (OperatorName_parse s6 = Inr n \<longrightarrow> OperatorName_str n = s6)"
  by (simp add: FunctionSchema_parse_roundtrip Type_parse_roundtrip Annotation_parse_roundtrip
      Argument_parse_roundtrip Return_parse_roundtrip OperatorName_parse_roundtrip)

theorem parse_then_print_is_identity_witness:
  "FunctionSchema_parse
     ''add.out(Tensor self, Tensor other, *, Scalar alpha=1, Tensor(a!) out) -> Tensor(a!)''
     = Inr add_out \<and>
   FunctionSchema_str add_out
     = Inr ''add.out(Tensor self, Tensor other, *, Scalar alpha=1, Tensor(a!) out) -> Tensor(a!)'' \<and>
   Type_parse ''Tensor?[3]'' = Inr (ListType (OptionalType (BaseType Tensor)) (Some 3)) \<and>
   Type_str (ListType (OptionalType (BaseType Tensor)) (Some 3)) = ''Tensor?[3]'' \<and>
   Annotation_parse ''a!'' = Inr write_a \<and>
   Annotation_str write_a = ''a!'' \<and>
   Argument_parse ''Tensor(a!) out'' = Inr (tensor_a_arg ''out'') \<and>
   Argument_str (tensor_a_arg ''out'') = Inr ''Tensor(a!) out'' \<and>
   Return_parse ''Tensor(a!)'' = Inr tensor_a_ret \<and>
   Return_str tensor_a_ret = Inr ''Tensor(a!)'' \<and>
   OperatorName_parse ''add_.Tensor'' = Inr (op ''add'' True ''Tensor'') \<and>
   OperatorName_str (op ''add'' True ''Tensor'') = ''add_.Tensor''"
proof -
  have p1: "FunctionSchema_parse
     ''add.out(Tensor self, Tensor other, *, Scalar alpha=1, Tensor(a!) out) -> Tensor(a!)''
     = Inr add_out" by (rule examples_parse)
  have p2: "Type_parse ''Tensor?[3]'' = Inr (ListType (OptionalType (BaseType Tensor)) (Some 3))"
    by code_simp
  have p3: "Annotation_parse ''a!'' = Inr write_a" by code_simp
  have p4: "Argument_parse ''Tensor(a!) out'' = Inr (tensor_a_arg ''out'')" by code_simp
  have p5: "Return_parse ''Tensor(a!)'' = Inr tensor_a_ret" by code_simp
  have p6: "OperatorName_parse ''add_.Tensor'' = Inr (op ''add'' True ''Tensor'')" by code_simp
  from parse_then_print_is_identity
    [of "''add.out(Tensor self, Tensor other, *, Scalar alpha=1, Tensor(a!) out) -> Tensor(a!)''"
        add_out "''Tensor?[3]''" "ListType (OptionalType (BaseType Tensor)) (Some 3)"
        "''a!''" write_a "''Tensor(a!) out''" "tensor_a_arg ''out''"
        "''Tensor(a!)''" tensor_a_ret "''add_.Tensor''" "op ''add'' True ''Tensor''"]
    p1 p2 p3 p4 p5 p6
  show ?thesis by simp
qed

section \<open>Operator names in dunder form\<close>

lemma match_dunder_form:
  "X \<noteq> [] \<Longrightarrow> CHR ''_'' \<notin> set X \<Longrightarrow> match_dunder (''__'' @ X @ ''__'') = Some X"
  by (cases X) (simp_all add: match_dunder_def dollar_body_def newline_def str_startswith_def
      str_endswith_def Let_def)

lemma dunder_not_endswith_out: "\<not> str_endswith (''__'' @ X @ ''__'') ''_out''"
proof
  assume "str_endswith (''__'' @ X @ ''__'') ''_out''"
  then have "drop (length (''__'' @ X @ ''__'') - 4) (''__'' @ X @ ''__'') = ''_out''"
    by (simp add: str_endswith_def)
  then have "last (drop (length (''__'' @ X @ ''__'') - 4) (''__'' @ X @ ''__'')) = CHR ''t''"
    by simp
  then show False by (simp add: last_drop)
qed

text \<open>
  Claim C10. A name in dunder form, that is two underscores, a non-empty inner name \<open>X\<close>
  without underscore, two underscores (the pattern of the parser), is rejected by
  \<open>BaseOperatorName_parse\<close> with an assertion error when \<open>X\<close> begins with the letter i and
  is not the letter i followed by one of the eleven augmented assignment names.
\<close>

theorem dunder_i_name_rejected:
  assumes "X \<noteq> []" and "CHR ''_'' \<notin> set X" and "hd X = CHR ''i''"
    and "X \<notin> set (map (\<lambda>n. ''i'' @ n) AUGMENTED_ASSIGNMENT_NAMES)"
  shows "BaseOperatorName_parse (''__'' @ X @ ''__'') = Inl AssertionError"
proof -
  have m: "match_dunder (''__'' @ X @ ''__'') = Some X"
    using assms(1,2) by (rule match_dunder_form)
  have n: "\<not> list_ex (\<lambda>n. X = ''i'' @ n) AUGMENTED_ASSIGNMENT_NAMES"
    using assms(4) by (auto simp: list_ex_iff)
  show ?thesis
    unfolding BaseOperatorName_parse_def
    using m n assms(3) dunder_not_endswith_out [of X] by simp
qed

theorem dunder_i_name_rejected_witness:
  "''imag'' \<noteq> [] \<and> CHR ''_'' \<notin> set ''imag'' \<and> hd ''imag'' = CHR ''i'' \<and>
   ''imag'' \<notin> set (map (\<lambda>n. ''i'' @ n) AUGMENTED_ASSIGNMENT_NAMES) \<and>
   BaseOperatorName_parse ''__imag__'' = Inl AssertionError"
proof -
  have a: "''imag'' \<noteq> []" by simp
  have b: "CHR ''_'' \<notin> set ''imag''" by simp
  have c: "hd ''imag'' = CHR ''i''" by simp
  have d: "''imag'' \<notin> set (map (\<lambda>n. ''i'' @ n) AUGMENTED_ASSIGNMENT_NAMES)"
    by (simp add: AUGMENTED_ASSIGNMENT_NAMES_def)
  from dunder_i_name_rejected [OF a b c d] a b c d show ?thesis by simp
qed

text \<open>
  The eleven names themselves are accepted behind the letter i, as inplace names, and an
  inner name with an underscore is not in dunder form for the parser: it is read by the
  branch of the trailing underscore.
\<close>

lemma dunder_names_accepted:
  "BaseOperatorName_parse ''__iadd__'' = Inr \<lparr>base = ''add'', inplace = True, dunder_method = True\<rparr>"
  "BaseOperatorName_parse ''__and__'' = Inr \<lparr>base = ''and'', inplace = False, dunder_method = True\<rparr>"
  "BaseOperatorName_parse ''__i_x__''
     = Inr \<lparr>base = ''__i_x_'', inplace = True, dunder_method = False\<rparr>"
  by code_simp+

section \<open>The pre-split of the arguments\<close>

lemma Argument_parse_not_separator:
  assumes "Argument_parse arg = Inr parg"
  shows "arg \<noteq> []" and "arg \<noteq> ''*''"
proof -
  have "Argument_parse [] = Inl ValueError" by code_simp
  with assms show "arg \<noteq> []" by auto
  have "Argument_parse ''*'' = Inl ValueError" by code_simp
  with assms show "arg \<noteq> ''*''" by auto
qed

lemma preparse_step_out_stays:
  "arguments_acc st = acc_out \<Longrightarrow> preparse_step st arg = Inr st' \<Longrightarrow> arguments_acc st' = acc_out"
  by (auto simp: preparse_step_def acc_append_def split: if_splits sum.splits)

lemma preparse_loop_out_stays:
  "arguments_acc st = acc_out \<Longrightarrow> preparse_loop st args = Inr st' \<Longrightarrow> arguments_acc st' = acc_out"
proof (induction args arbitrary: st)
  case Nil
  then show ?case by simp
next
  case (Cons a args)
  then show ?case
    by (auto split: sum.splits dest: preparse_step_out_stays)
qed

lemma preparse_step_out_not_write:
  assumes "arguments_acc st = acc_out" and "Argument_parse arg = Inr parg"
    and "\<not> Argument_is_write parg"
  shows "preparse_step st arg = Inl AssertionError"
  using assms Argument_parse_not_separator [OF assms(2)]
  by (simp add: preparse_step_def Argument_is_write_def)

lemma preparse_loop_out_not_write:
  assumes "arg \<in> set args" and "Argument_parse arg = Inr parg" and "\<not> Argument_is_write parg"
  shows "arguments_acc st = acc_out \<Longrightarrow> \<exists>e. preparse_loop st args = Inl e"
  using assms(1)
proof (induction args arbitrary: st)
  case Nil
  then show ?case by simp
next
  case (Cons a args)
  show ?case
  proof (cases "preparse_step st a")
    case (Inl e)
    then show ?thesis by simp
  next
    case (Inr st')
    with Cons.prems(1) have out': "arguments_acc st' = acc_out"
      by (auto dest: preparse_step_out_stays)
    have "a \<noteq> arg"
      using Inr preparse_step_out_not_write [OF Cons.prems(1) assms(2,3)] by auto
    with Cons.prems(2) have "arg \<in> set args" by simp
    with Cons.IH [OF out'] Inr show ?thesis by simp
  qed
qed

text \<open>
  Claim C4. In the pre-split: (1) an argument with a write annotation that is met while
  the target is the kwarg-only list switches the target to the out list and is the first
  element put there, and while the target is the out list such an argument is put there
  too; (2) while the target is the positional list an argument with a write annotation is
  put into the positional list, and (3) no step from the positional target reaches the out
  target or touches the out list; (4) once the target is the out list it is the out list
  at the end of every successful run; (5) once the target is the out list, an argument
  without write annotation among the remaining ones makes the pre-split fail.
\<close>

theorem preparse_out_bucket:
  "(arguments_acc st1 \<noteq> acc_positional \<and> Argument_parse arg1 = Inr parg1 \<and>
      Argument_is_write parg1 \<longrightarrow>
      preparse_step st1 arg1
        = Inr (st1\<lparr>arguments_acc := acc_out, out_list := out_list st1 @ [parg1]\<rparr>)) \<and>
   (arguments_acc st2 = acc_positional \<and> Argument_parse arg2 = Inr parg2 \<and>
      Argument_is_write parg2 \<longrightarrow>
      preparse_step st2 arg2 = Inr (st2\<lparr>positional := positional st2 @ [parg2]\<rparr>)) \<and>
   (arguments_acc st3 = acc_positional \<and> preparse_step st3 arg3 = Inr st3' \<longrightarrow>
      arguments_acc st3' \<noteq> acc_out \<and> out_list st3' = out_list st3) \<and>
   (arguments_acc st4 = acc_out \<and> preparse_loop st4 args4 = Inr st4' \<longrightarrow>
      arguments_acc st4' = acc_out) \<and>
   (arguments_acc st5 = acc_out \<and> arg5 \<in> set args5 \<and> Argument_parse arg5 = Inr parg5 \<and>
      \<not> Argument_is_write parg5 \<longrightarrow>
      (\<exists>e. preparse_loop st5 args5 = Inl e))"
proof (intro conjI impI)
  assume "arguments_acc st1 \<noteq> acc_positional \<and> Argument_parse arg1 = Inr parg1 \<and>
      Argument_is_write parg1"
  then show "preparse_step st1 arg1
        = Inr (st1\<lparr>arguments_acc := acc_out, out_list := out_list st1 @ [parg1]\<rparr>)"
    using Argument_parse_not_separator [of arg1 parg1]
    by (cases "arguments_acc st1")
       (simp_all add: preparse_step_def Argument_is_write_def acc_append_def)
next
  assume "arguments_acc st2 = acc_positional \<and> Argument_parse arg2 = Inr parg2 \<and>
      Argument_is_write parg2"
  then show "preparse_step st2 arg2 = Inr (st2\<lparr>positional := positional st2 @ [parg2]\<rparr>)"
    using Argument_parse_not_separator [of arg2 parg2]
    by (simp add: preparse_step_def Argument_is_write_def acc_append_def)
next
  assume "arguments_acc st3 = acc_positional \<and> preparse_step st3 arg3 = Inr st3'"
  then show "arguments_acc st3' \<noteq> acc_out" "out_list st3' = out_list st3"
    by (auto simp: preparse_step_def acc_append_def split: if_splits sum.splits)
next
  assume "arguments_acc st4 = acc_out \<and> preparse_loop st4 args4 = Inr st4'"
  then show "arguments_acc st4' = acc_out"
    by (auto dest: preparse_loop_out_stays)
next
  assume "arguments_acc st5 = acc_out \<and> arg5 \<in> set args5 \<and> Argument_parse arg5 = Inr parg5 \<and>
      \<not> Argument_is_write parg5"
  then show "\<exists>e. preparse_loop st5 args5 = Inl e"
    by (auto intro: preparse_loop_out_not_write)
qed

theorem preparse_out_bucket_witness:
  "preparse_step (preparse_init\<lparr>arguments_acc := acc_kwarg_only\<rparr>) ''Tensor(a!) out''
     = Inr (preparse_init\<lparr>arguments_acc := acc_out, out_list := [tensor_a_arg ''out'']\<rparr>) \<and>
   preparse_step preparse_init ''Tensor(a!) self''
     = Inr (preparse_init\<lparr>positional := [tensor_a_arg ''self'']\<rparr>) \<and>
   arguments_acc (preparse_init\<lparr>positional := [tensor_a_arg ''self'']\<rparr>) \<noteq> acc_out \<and>
   preparse_loop (preparse_init\<lparr>arguments_acc := acc_out\<rparr>) [''Tensor(a!) out'']
     = Inr (preparse_init\<lparr>arguments_acc := acc_out, out_list := [tensor_a_arg ''out'']\<rparr>) \<and>
   (\<exists>e. preparse_loop (preparse_init\<lparr>arguments_acc := acc_out\<rparr>) [''Tensor(a!) out'', ''int x'']
          = Inl e)"
proof -
  let ?kw = "preparse_init\<lparr>arguments_acc := acc_kwarg_only\<rparr>"
  let ?out = "preparse_init\<lparr>arguments_acc := acc_out\<rparr>"
  let ?pos' = "preparse_init\<lparr>positional := [tensor_a_arg ''self'']\<rparr>"
  let ?out' = "preparse_init\<lparr>arguments_acc := acc_out, out_list := [tensor_a_arg ''out'']\<rparr>"
  have pa: "Argument_parse ''Tensor(a!) out'' = Inr (tensor_a_arg ''out'')" by code_simp
  have ps: "Argument_parse ''Tensor(a!) self'' = Inr (tensor_a_arg ''self'')" by code_simp
  have px: "Argument_parse ''int x'' = Inr (plain_arg ''x'' (BaseType int_ty) None)" by code_simp
  have w: "Argument_is_write (tensor_a_arg n)" for n
    by (simp add: Argument_is_write_def annotation_is_write_def tensor_a_arg_def write_a_def)
  have nw: "\<not> Argument_is_write (plain_arg ''x'' (BaseType int_ty) None)"
    by (simp add: Argument_is_write_def annotation_is_write_def plain_arg_def)
  have s3: "preparse_step preparse_init ''Tensor(a!) self'' = Inr ?pos'"
    using ps w [of "''self''"]
    by (simp add: preparse_step_def preparse_init_def acc_append_def Argument_is_write_def)
  have l4: "preparse_loop ?out [''Tensor(a!) out''] = Inr ?out'"
    using pa w [of "''out''"]
    by (simp add: preparse_step_def preparse_init_def acc_append_def Argument_is_write_def)
  note inst = preparse_out_bucket
    [of ?kw "''Tensor(a!) out''" "tensor_a_arg ''out''"
        preparse_init "''Tensor(a!) self''" "tensor_a_arg ''self''"
        preparse_init "''Tensor(a!) self''" ?pos'
        ?out "[''Tensor(a!) out'']" ?out'
        ?out "''int x''" "[''Tensor(a!) out'', ''int x'']" "plain_arg ''x'' (BaseType int_ty) None"]
  from inst pa ps px w nw s3 l4 show ?thesis
    by (simp add: preparse_init_def)
qed

section \<open>Tensor options\<close>

lemma quad_at_space: "quad_at kw i \<longleftrightarrow> i + 4 \<le> length kw \<and> looks_like_tensor_options kw i"
  by (auto simp: quad_at_def predicates_def)

lemma loop_unfold:
  "tensor_options_loop kw i st =
     (if i < length kw then
        (if quad_at kw i
         then
           (if acc_is_post st then Inl AssertionError
            else tensor_options_loop kw (i + 4)
                   (st\<lparr>tensor_options_acc :=
                          Some \<lparr>dtype = kw ! i, layout = kw ! (i + 1),
                                device = kw ! (i + 2), pin_memory = kw ! (i + 3)\<rparr>,
                       acc_is_post := True\<rparr>))
         else tensor_options_loop kw (i + 1)
                (if acc_is_post st then st\<lparr>post_acc := post_acc st @ [kw ! i]\<rparr>
                 else st\<lparr>pre_acc := pre_acc st @ [kw ! i]\<rparr>))
      else Inr st)"
proof -
  have lp: "i + length predicates = i + 4" by (simp add: predicates_def)
  show ?thesis
    by (subst tensor_options_loop.simps) (simp only: lp quad_at_def [symmetric])
qed

lemma loop_no_quad:
  "\<forall>j\<ge>i. \<not> quad_at kw j \<Longrightarrow>
   tensor_options_loop kw i st =
     Inr (if acc_is_post st then st\<lparr>post_acc := post_acc st @ drop i kw\<rparr>
          else st\<lparr>pre_acc := pre_acc st @ drop i kw\<rparr>)"
proof (induction "length kw - i" arbitrary: i st)
  case 0
  then show ?case by (subst loop_unfold) simp
next
  case (Suc n)
  then have lt: "i < length kw" and n: "n = length kw - Suc i" by auto
  have nq: "\<not> quad_at kw i" using Suc.prems by auto
  have rest: "\<forall>j\<ge>Suc i. \<not> quad_at kw j" using Suc.prems by auto
  have d: "drop i kw = kw ! i # drop (Suc i) kw" using lt by (simp add: Cons_nth_drop_Suc)
  show ?case
    by (subst loop_unfold) (simp add: lt nq Suc.hyps(1) [OF n rest] d)
qed

lemma loop_post_quad:
  "acc_is_post st \<Longrightarrow> quad_at kw j \<Longrightarrow> i \<le> j \<Longrightarrow> tensor_options_loop kw i st = Inl AssertionError"
proof (induction "j - i" arbitrary: i st)
  case 0
  then have "i = j" by simp
  with 0 have "quad_at kw i" by simp
  moreover from this have "i < length kw" by (simp add: quad_at_space)
  ultimately show ?case using 0 by (subst loop_unfold) simp
next
  case (Suc n)
  then have n: "n = j - Suc i" and le: "Suc i \<le> j" by auto
  from Suc.prems(2) le have lt: "i < length kw" by (simp add: quad_at_space)
  show ?case
  proof (cases "quad_at kw i")
    case True
    then show ?thesis using lt Suc.prems(1) by (subst loop_unfold) simp
  next
    case False
    have "tensor_options_loop kw (Suc i) (st\<lparr>post_acc := post_acc st @ [kw ! i]\<rparr>) = Inl AssertionError"
      by (rule Suc.hyps(1) [OF n _ Suc.prems(2) le]) (simp add: Suc.prems(1))
    then show ?thesis using lt False Suc.prems(1) by (subst loop_unfold) simp
  qed
qed

lemma loop_pre_first_quad:
  "\<not> acc_is_post st \<Longrightarrow> quad_at kw j \<Longrightarrow> i \<le> j \<Longrightarrow> \<forall>k. i \<le> k \<and> k < j \<longrightarrow> \<not> quad_at kw k \<Longrightarrow>
   tensor_options_loop kw i st =
     tensor_options_loop kw (j + 4)
       (st\<lparr>pre_acc := pre_acc st @ take (j - i) (drop i kw),
           tensor_options_acc :=
             Some \<lparr>dtype = kw ! j, layout = kw ! (j + 1),
                   device = kw ! (j + 2), pin_memory = kw ! (j + 3)\<rparr>,
           acc_is_post := True\<rparr>)"
proof (induction "j - i" arbitrary: i st)
  case 0
  then have ij: "i = j" by simp
  with 0 have q: "quad_at kw i" by simp
  then have lt: "i < length kw" by (simp add: quad_at_space)
  show ?case using q lt 0(2) ij by (subst loop_unfold) simp
next
  case (Suc n)
  then have n: "n = j - Suc i" and le: "Suc i \<le> j" by auto
  from Suc.prems(2) le have lt: "i < length kw" by (simp add: quad_at_space)
  have nq: "\<not> quad_at kw i" using Suc.prems(4) le by auto
  have rest: "\<forall>k. Suc i \<le> k \<and> k < j \<longrightarrow> \<not> quad_at kw k" using Suc.prems(4) by auto
  have t: "take (j - i) (drop i kw) = kw ! i # take (j - Suc i) (drop (Suc i) kw)"
  proof -
    have "j - i = Suc (j - Suc i)" using le by arith
    then show ?thesis using lt by (simp add: Cons_nth_drop_Suc [symmetric])
  qed
  have "tensor_options_loop kw (Suc i) (st\<lparr>pre_acc := pre_acc st @ [kw ! i]\<rparr>) =
     tensor_options_loop kw (j + 4)
       ((st\<lparr>pre_acc := pre_acc st @ [kw ! i]\<rparr>)
          \<lparr>pre_acc := pre_acc (st\<lparr>pre_acc := pre_acc st @ [kw ! i]\<rparr>) @ take (j - Suc i) (drop (Suc i) kw),
           tensor_options_acc :=
             Some \<lparr>dtype = kw ! j, layout = kw ! (j + 1),
                   device = kw ! (j + 2), pin_memory = kw ! (j + 3)\<rparr>,
           acc_is_post := True\<rparr>)"
    by (rule Suc.hyps(1) [OF n _ Suc.prems(2) le rest]) (simp add: Suc.prems(1))
  then show ?case using lt nq Suc.prems(1) by (subst loop_unfold) (simp add: t)
qed


lemma take4_drop:
  assumes "i + 4 \<le> length kw"
  shows "take 4 (drop i kw) = [kw ! i, kw ! (i + 1), kw ! (i + 2), kw ! (i + 3)]"
proof -
  have d0: "drop i kw = kw ! i # drop (i + 1) kw"
    using assms by (simp add: Cons_nth_drop_Suc)
  have d1: "drop (i + 1) kw = kw ! (i + 1) # drop (i + 2) kw"
    using assms Cons_nth_drop_Suc [of "i + 1" kw] by simp
  have d2: "drop (i + 2) kw = kw ! (i + 2) # drop (i + 3) kw"
    using assms Cons_nth_drop_Suc [of "i + 2" kw] by (simp add: eval_nat_numeral)
  have d3: "drop (i + 3) kw = kw ! (i + 3) # drop (i + 4) kw"
    using assms Cons_nth_drop_Suc [of "i + 3" kw] by (simp add: eval_nat_numeral)
  show ?thesis
    unfolding d0 d1 d2 d3 by (simp add: eval_nat_numeral)
qed

lemma quad_at_iff:
  "quad_at kw i \<longleftrightarrow>
     i + 4 \<le> length kw \<and> pred ''dtype'' (BaseType ScalarType) (kw ! i) \<and>
     pred ''layout'' (BaseType Layout) (kw ! (i + 1)) \<and>
     pred ''device'' (BaseType Device) (kw ! (i + 2)) \<and>
     pred ''pin_memory'' (BaseType bool_ty) (kw ! (i + 3))"
proof (cases "i + 4 \<le> length kw")
  case True
  have lp: "length predicates = 4" by (simp add: predicates_def)
  show ?thesis
    unfolding quad_at_space looks_like_tensor_options_def lp take4_drop [OF True]
    by (simp add: predicates_def True)
next
  case False
  then show ?thesis by (simp add: quad_at_space)
qed

lemma quad_split:
  assumes "j + 4 \<le> length kw"
  shows "take j kw @ [kw ! j, kw ! (j + 1), kw ! (j + 2), kw ! (j + 3)] @ drop (j + 4) kw = kw"
proof -
  have "take 4 (drop j kw) @ drop 4 (drop j kw) = drop j kw"
    by (rule append_take_drop_id)
  then have "take j kw @ take 4 (drop j kw) @ drop 4 (drop j kw) = kw"
    by (simp only: append_take_drop_id)
  then show ?thesis by (simp add: take4_drop [OF assms] add.commute)
qed

lemma loop_result:
  assumes "tensor_options_loop kw 0 tensor_options_init = Inr st"
  shows "(tensor_options_acc st \<noteq> None \<longleftrightarrow> (\<exists>j. quad_at kw j)) \<and>
         (tensor_options_acc st = None \<longrightarrow> pre_acc st = kw \<and> post_acc st = []) \<and>
         pre_acc st
           @ (case tensor_options_acc st of None \<Rightarrow> [] | Some t \<Rightarrow> TensorOptionsArguments_all t)
           @ post_acc st = kw"
proof (cases "\<exists>j. quad_at kw j")
  case False
  then have "\<forall>j\<ge>0. \<not> quad_at kw j" by simp
  from loop_no_quad [OF this, of tensor_options_init] assms
  have "st = tensor_options_init\<lparr>pre_acc := kw\<rparr>"
    by (simp add: tensor_options_init_def)
  with False show ?thesis by (simp add: tensor_options_init_def)
next
  case True
  define j where "j = (LEAST j. quad_at kw j)"
  have q: "quad_at kw j" unfolding j_def using True by (auto intro: LeastI)
  have first: "\<forall>k. 0 \<le> k \<and> k < j \<longrightarrow> \<not> quad_at kw k"
    unfolding j_def by (auto dest: not_less_Least)
  define st1 where "st1 = tensor_options_init\<lparr>pre_acc := take j kw,
           tensor_options_acc :=
             Some \<lparr>dtype = kw ! j, layout = kw ! (j + 1),
                   device = kw ! (j + 2), pin_memory = kw ! (j + 3)\<rparr>,
           acc_is_post := True\<rparr>"
  have step: "tensor_options_loop kw 0 tensor_options_init = tensor_options_loop kw (j + 4) st1"
    using loop_pre_first_quad [OF _ q _ first, of tensor_options_init]
    by (simp add: tensor_options_init_def st1_def)
  have post: "acc_is_post st1" by (simp add: st1_def)
  have none_later: "\<forall>k\<ge>j + 4. \<not> quad_at kw k"
  proof (intro allI impI notI)
    fix k assume "j + 4 \<le> k" and "quad_at kw k"
    from loop_post_quad [OF post this(2) this(1)] step assms show False by simp
  qed
  from loop_no_quad [OF none_later, of st1] step assms post
  have st: "st = st1\<lparr>post_acc := post_acc st1 @ drop (j + 4) kw\<rparr>" by simp
  have len: "j + 4 \<le> length kw" using q by (simp add: quad_at_space)
  show ?thesis
    using True quad_split [OF len]
    by (simp add: st st1_def tensor_options_init_def TensorOptionsArguments_all_def)
qed

lemma Arguments_parse_kwarg_only:
  assumes "Arguments_parse args = Inr a" and "Arguments__preparse args = Inr (pos, kw, outs)"
  shows "(tensor_options a \<noteq> None \<longleftrightarrow> (\<exists>j. quad_at kw j)) \<and>
         (tensor_options a = None \<longrightarrow>
            pre_tensor_options_kwarg_only a = kw \<and> post_tensor_options_kwarg_only a = []) \<and>
         flat_kwarg_only a = kw"
proof -
  from assms obtain st where
    l: "tensor_options_loop kw 0 tensor_options_init = Inr st" and
    a: "pre_tensor_options_kwarg_only a = pre_acc st" "tensor_options a = tensor_options_acc st"
       "post_tensor_options_kwarg_only a = post_acc st"
    by (auto simp: Arguments_parse_def new_Arguments_def Let_def
        split: sum.splits prod.splits)
  from loop_result [OF l] show ?thesis
    by (simp add: a flat_kwarg_only_def)
qed

text \<open>
  Claim C5. For the value \<open>a\<close> that \<open>Arguments_parse\<close> gives, with \<open>kw\<close> the kwarg-only list of
  the pre-split: the tensor options bundle is present exactly when four consecutive
  elements of \<open>kw\<close> are named \<^verbatim>\<open>dtype\<close>, \<^verbatim>\<open>layout\<close>, \<^verbatim>\<open>device\<close>, \<^verbatim>\<open>pin_memory\<close>, in this order,
  with the types \<^verbatim>\<open>ScalarType\<close>, \<^verbatim>\<open>Layout\<close>, \<^verbatim>\<open>Device\<close>, \<^verbatim>\<open>bool\<close> or their optional forms;
  when the bundle is absent all of \<open>kw\<close> is in the first kwarg-only bucket and the second
  one is empty; in both cases the kwarg-only buckets together are \<open>kw\<close>.
\<close>

theorem tensor_options_bundle_iff_quad:
  assumes "Arguments_parse args = Inr a" and "Arguments__preparse args = Inr (pos, kw, outs)"
  shows "(tensor_options a \<noteq> None \<longleftrightarrow>
            (\<exists>i. i + 4 \<le> length kw \<and>
                 pred ''dtype'' (BaseType ScalarType) (kw ! i) \<and>
                 pred ''layout'' (BaseType Layout) (kw ! (i + 1)) \<and>
                 pred ''device'' (BaseType Device) (kw ! (i + 2)) \<and>
                 pred ''pin_memory'' (BaseType bool_ty) (kw ! (i + 3)))) \<and>
         (tensor_options a = None \<longrightarrow>
            pre_tensor_options_kwarg_only a = kw \<and> post_tensor_options_kwarg_only a = []) \<and>
         flat_kwarg_only a = kw"
  using Arguments_parse_kwarg_only [OF assms] by (simp add: quad_at_iff)

theorem tensor_options_bundle_iff_quad_witness:
  "Arguments_parse
     ''Tensor self, *, ScalarType dtype, Layout layout, Device device, bool pin_memory''
     = Inr (arguments foo_factory) \<and>
   Arguments__preparse
     ''Tensor self, *, ScalarType dtype, Layout layout, Device device, bool pin_memory''
     = Inr ([plain_arg ''self'' (BaseType Tensor) None], options_quad, []) \<and>
   tensor_options (arguments foo_factory) \<noteq> None \<and>
   (\<exists>i. i + 4 \<le> length options_quad \<and>
        pred ''dtype'' (BaseType ScalarType) (options_quad ! i) \<and>
        pred ''layout'' (BaseType Layout) (options_quad ! (i + 1)) \<and>
        pred ''device'' (BaseType Device) (options_quad ! (i + 2)) \<and>
        pred ''pin_memory'' (BaseType bool_ty) (options_quad ! (i + 3))) \<and>
   flat_kwarg_only (arguments foo_factory) = options_quad"
proof -
  have p: "Arguments_parse
     ''Tensor self, *, ScalarType dtype, Layout layout, Device device, bool pin_memory''
     = Inr (arguments foo_factory)" by code_simp
  have q: "Arguments__preparse
     ''Tensor self, *, ScalarType dtype, Layout layout, Device device, bool pin_memory''
     = Inr ([plain_arg ''self'' (BaseType Tensor) None], options_quad, [])" by code_simp
  have t: "tensor_options (arguments foo_factory) \<noteq> None" by (simp add: foo_factory_def)
  from tensor_options_bundle_iff_quad [OF p q] p q t show ?thesis by simp
qed

section \<open>Printing a signature\<close>

lemma printable_no_annotation: "arg_annotation a = None \<Longrightarrow> printable a"
  by (simp add: printable_def Argument_str_def annotated_type_str_def Let_def)

lemma map_err_ok: "(\<forall>x\<in>set xs. \<exists>y. f x = Inr y) \<Longrightarrow> \<exists>ys. map_err f xs = Inr ys"
  by (induction xs) (auto split: sum.splits)

lemma Arguments_str_ok:
  "\<forall>a\<in>set (flat_all x). printable a \<Longrightarrow> \<exists>s. Arguments_str x = Inr s"
proof -
  assume a: "\<forall>a\<in>set (flat_all x). printable a"
  then have "\<exists>ys. map_err Argument_str (flat_positional x) = Inr ys"
    "\<exists>ys. map_err Argument_str (flat_kwarg_only x) = Inr ys"
    "\<exists>ys. map_err Argument_str (out x) = Inr ys"
    by (auto intro!: map_err_ok simp: flat_all_def printable_def)
  then show ?thesis by (auto simp: Arguments_str_def Let_def)
qed

lemma preparse_step_printable:
  assumes "preparse_step st arg = Inr st'"
    and "\<forall>a\<in>set (positional st @ kwarg_only st @ out_list st). printable a"
  shows "\<forall>a\<in>set (positional st' @ kwarg_only st' @ out_list st'). printable a"
proof -
  have "printable parg" if "Argument_parse arg = Inr parg" for parg
    using Argument_parse_roundtrip [OF that] by (auto simp: printable_def)
  with assms show ?thesis
    by (auto simp: preparse_step_def acc_append_def split: if_splits sum.splits acc_target.splits)
qed

lemma preparse_loop_printable:
  "preparse_loop st args = Inr st' \<Longrightarrow>
   \<forall>a\<in>set (positional st @ kwarg_only st @ out_list st). printable a \<Longrightarrow>
   \<forall>a\<in>set (positional st' @ kwarg_only st' @ out_list st'). printable a"
proof (induction args arbitrary: st)
  case Nil
  then show ?case by simp
next
  case (Cons a args)
  from Cons.prems(1) obtain st1 where s: "preparse_step st a = Inr st1"
    and l: "preparse_loop st1 args = Inr st'"
    by (auto split: sum.splits)
  from Cons.IH [OF l preparse_step_printable [OF s Cons.prems(2)]] show ?case .
qed

lemma self_index_lt: "self_index xs = Some i \<Longrightarrow> i < length xs"
  by (induction xs arbitrary: i) (auto split: if_splits)

lemma Arguments_parse_positional:
  assumes "Arguments_parse args = Inr a" and "Arguments__preparse args = Inr (pos, kw, outs)"
  shows "set (flat_positional a) \<subseteq> set pos" and "out a = outs"
proof -
  show "out a = outs"
    using assms
    by (auto simp: Arguments_parse_def new_Arguments_def Let_def
        split: sum.splits prod.splits option.splits)
  show "set (flat_positional a) \<subseteq> set pos"
  proof (cases "self_index pos")
    case None
    with assms show ?thesis
      by (auto simp: Arguments_parse_def new_Arguments_def Let_def flat_positional_def
          split: sum.splits)
  next
    case (Some i)
    then have "i < length pos" by (rule self_index_lt)
    then have "pos ! i \<in> set pos" by simp
    moreover have "set (take i pos) \<subseteq> set pos" by (rule set_take_subset)
    moreover have "set (drop (i + 1) pos) \<subseteq> set pos" by (rule set_drop_subset)
    ultimately show ?thesis
      using assms Some
      by (auto simp: Arguments_parse_def new_Arguments_def Let_def flat_positional_def
          split: sum.splits)
  qed
qed

lemma Arguments_parse_printable:
  assumes "Arguments_parse args = Inr a"
  shows "\<forall>x\<in>set (flat_all a). printable x"
proof -
  from assms obtain pos kw outs where
    pre: "Arguments__preparse args = Inr (pos, kw, outs)"
    by (auto simp: Arguments_parse_def split: sum.splits prod.splits)
  note fp = Arguments_parse_positional [OF assms pre]
  from Arguments_parse_kwarg_only [OF assms pre] have fk: "flat_kwarg_only a = kw" by simp
  from pre obtain st' where l: "preparse_loop preparse_init (str_split args '', '') = Inr st'"
    and e: "pos = positional st'" "kw = kwarg_only st'" "outs = out_list st'"
    by (auto simp: Arguments__preparse_def split: sum.splits)
  have "\<forall>a\<in>set (positional st' @ kwarg_only st' @ out_list st'). printable a"
    by (rule preparse_loop_printable [OF l]) (simp add: preparse_init_def)
  with fp fk e show ?thesis by (auto simp: flat_all_def)
qed


lemma Arguments_signature_Inr:
  assumes "Arguments_signature sd a = Inr b"
  shows "\<forall>x\<in>set (flat_all b). arg_annotation x = None"
    and "tensor_options b = None" and "out b = []" and "post_tensor_options_kwarg_only b = []"
  using assms
  by (auto simp: Arguments_signature_def new_Arguments_def flat_all_def flat_positional_def
      flat_kwarg_only_def strip_arg_annotation_def split: sum.splits option.splits)

lemma reparse_printable:
  assumes "(if c then reparse_with_default old new a else Inr a) = Inr b"
    and "\<forall>x\<in>set (flat_all a). printable x"
  shows "\<forall>x\<in>set (flat_all b). printable x"
proof (cases c)
  case True
  with assms(1) obtain s where "Arguments_parse s = Inr b"
    by (auto simp: reparse_with_default_def split: sum.splits)
  then show ?thesis by (rule Arguments_parse_printable)
next
  case False
  with assms show ?thesis by simp
qed

lemma signature_kw_Inr:
  assumes "signature_kw sd sv kr x = Inr y"
  obtains a0 a1 a2 where
    "Arguments_signature sd (arguments x) = Inr a0"
    "(if OperatorName_str (name x) = ''arange.start_step''
      then reparse_with_default ''Scalar step'' ''Scalar step=1'' a0 else Inr a0) = Inr a1"
    "(if OperatorName_str (name x) = ''bernoulli.p''
      then reparse_with_default ''float p'' ''float p=0.5'' a1 else Inr a1) = Inr a2"
    "arguments y = a2"
    "\<forall>r\<in>set (returns y). ret_annotation r = None"
    "overload_name (name y) = []" "\<not> inplace (op_name (name y))"
    "dunder_method (op_name (name y)) = dunder_method (op_name (name x))"
    "FunctionSchema_post_init y = Inr ()"
proof -
  let ?c1 = "if OperatorName_str (name x) = ''arange.start_step''
      then reparse_with_default ''Scalar step'' ''Scalar step=1'' else Inr"
  let ?c2 = "if OperatorName_str (name x) = ''bernoulli.p''
      then reparse_with_default ''float p'' ''float p=0.5'' else Inr"
  have if1: "(if c then f a else Inr a) = (if c then f else Inr) a" for c f and a :: Arguments
    by simp
  note d = signature_kw_def Let_def if1
  obtain a0 where s0: "Arguments_signature sd (arguments x) = Inr a0"
    using assms by (cases "Arguments_signature sd (arguments x)") (simp_all only: d sum.simps)
  obtain a1 where s1: "?c1 a0 = Inr a1"
    using assms by (cases "?c1 a0") (simp_all only: d s0 sum.simps)
  obtain a2 where s2: "?c2 a1 = Inr a2"
    using assms by (cases "?c2 a1") (simp_all only: d s0 s1 sum.simps)
  let ?y = "\<lparr>name = \<lparr>op_name =
             \<lparr>base = if sv \<and> str_endswith (base (op_name (name x))) ''_copy''
                then str_replace (base (op_name (name x))) ''_copy'' []
                else base (op_name (name x)),
                inplace = False,
                dunder_method = dunder_method (op_name (name x))\<rparr>,
             overload_name = []\<rparr>,
          arguments = a2,
          returns =
            map (strip_ret_annotation kr) (returns x) @
            map (\<lambda>a. \<lparr>ret_name = if kr then Some (arg_name a @ ''_out'') else None,
                        ret_type = arg_type a, ret_annotation = None\<rparr>)
             (filter
               (\<lambda>a. annotation_is_write (arg_annotation a) \<and>
                    \<not> list_ex (\<lambda>r. arg_annotation a = ret_annotation r) (returns x))
               ((case self_arg (arguments x) of None \<Rightarrow> [] | Some s \<Rightarrow> [argument s]) @
                out (arguments x) @ post_self_positional (arguments x)))\<rparr>"
  have n: "new_FunctionSchema ?y = Inr y"
    using assms by (simp only: d s0 s1 s2 sum.simps)
  then have y: "y = ?y" and ok: "FunctionSchema_post_init y = Inr ()"
    by (auto simp: new_FunctionSchema_def split: sum.splits)
  show thesis
  proof (rule that [OF s0 _ _ _ _ _ _ _ ok])
    show "(if OperatorName_str (name x) = ''arange.start_step''
      then reparse_with_default ''Scalar step'' ''Scalar step=1'' a0 else Inr a0) = Inr a1"
      using s1 by (simp only: if1)
    show "(if OperatorName_str (name x) = ''bernoulli.p''
      then reparse_with_default ''float p'' ''float p=0.5'' a1 else Inr a1) = Inr a2"
      using s2 by (simp only: if1)
  qed (auto simp: y strip_ret_annotation_def)
qed

lemma map_err_Return_str:
  "\<forall>r\<in>set rs. ret_annotation r = None \<Longrightarrow> \<exists>ys. map_err Return_str rs = Inr ys"
  by (rule map_err_ok)
     (auto simp: Return_str_def annotated_type_str_def Let_def split: option.splits)

lemma signature_kw_printable:
  assumes "signature_kw sd sv kr x = Inr y"
  shows "\<exists>s. FunctionSchema_str y = Inr s"
proof -
  from assms obtain a0 a1 a2 where
    s0: "Arguments_signature sd (arguments x) = Inr a0" and
    s1: "(if OperatorName_str (name x) = ''arange.start_step''
      then reparse_with_default ''Scalar step'' ''Scalar step=1'' a0 else Inr a0) = Inr a1" and
    s2: "(if OperatorName_str (name x) = ''bernoulli.p''
      then reparse_with_default ''float p'' ''float p=0.5'' a1 else Inr a1) = Inr a2" and
    y: "arguments y = a2" and r: "\<forall>r\<in>set (returns y). ret_annotation r = None"
    by (rule signature_kw_Inr)
  have "\<forall>x\<in>set (flat_all a0). printable x"
    using Arguments_signature_Inr(1) [OF s0] by (auto intro: printable_no_annotation)
  then have "\<forall>x\<in>set (flat_all a1). printable x" by (rule reparse_printable [OF s1])
  then have "\<forall>x\<in>set (flat_all a2). printable x" by (rule reparse_printable [OF s2])
  then obtain s where "Arguments_str (arguments y) = Inr s"
    unfolding y using Arguments_str_ok by blast
  moreover obtain ys where "map_err Return_str (returns y) = Inr ys"
    using map_err_Return_str [OF r] by blast
  ultimately show ?thesis by (simp add: FunctionSchema_str_def Let_def)
qed

lemma check_signatures_result:
  assumes "\<forall>f\<in>set fs. \<exists>s. signature (func f) = Inr s"
    and "\<exists>x. signature x = Inr test_sig"
  shows "check_signatures test_sig fs =
           (if \<forall>f\<in>set fs. signature (func f) = Inr test_sig then Inr () else Inl SignatureMismatch)"
  using assms(1)
proof (induction fs)
  case Nil
  then show ?case by simp
next
  case (Cons f fs)
  from Cons.prems obtain s where s: "signature (func f) = Inr s" by auto
  from assms(2) obtain s1 where p1: "FunctionSchema_str test_sig = Inr s1"
    unfolding signature_def by (blast dest: signature_kw_printable)
  from s obtain s2 where p2: "FunctionSchema_str s = Inr s2"
    unfolding signature_def by (blast dest: signature_kw_printable)
  from Cons show ?case by (auto simp: s p1 p2)
qed

text \<open>
  Claim C8. When every member of a group has a signature and the signature of some
  member differs from that of the functional member, the construction of the group
  fails with the signature mismatch error, from the constructor and from \<open>from_dict\<close>
  alike (for a dictionary with a functional and an out member); no group is returned.
\<close>

theorem group_signature_mismatch_fails:
  assumes "\<forall>f\<in>set (group_functions g). \<exists>s. signature (func f) = Inr s"
    and "\<exists>f\<in>set (group_functions g). signature (func f) \<noteq> signature (func (grp_functional g))"
  shows "new_NativeFunctionsGroup g = Inl SignatureMismatch \<and>
         (\<forall>d. d Functional = Some (grp_functional g) \<and> d Out = Some (grp_out g) \<and>
              d Inplace = grp_inplace g \<and> d Mutable = grp_mutable g \<longrightarrow>
              from_dict d = Inl SignatureMismatch)"
proof -
  from assms(1) obtain t where t: "signature (func (grp_functional g)) = Inr t"
    by (auto simp: group_functions_def)
  have ex: "\<exists>x. signature x = Inr t" using t by blast
  have "check_signatures t (group_functions g) = Inl SignatureMismatch"
    using check_signatures_result [OF assms(1) ex] t assms(2) by auto
  then have pi: "NativeFunctionsGroup_post_init g = Inl SignatureMismatch"
    by (simp add: NativeFunctionsGroup_post_init_def t)
  then have n: "new_NativeFunctionsGroup g = Inl SignatureMismatch"
    by (simp add: new_NativeFunctionsGroup_def)
  have g: "\<lparr>grp_functional = grp_functional g, grp_inplace = grp_inplace g,
             grp_mutable = grp_mutable g, grp_out = grp_out g\<rparr> = g" by simp
  have "from_dict d = Inl SignatureMismatch"
    if "d Functional = Some (grp_functional g) \<and> d Out = Some (grp_out g) \<and>
        d Inplace = grp_inplace g \<and> d Mutable = grp_mutable g" for d
    using that by (simp add: from_dict_def n g Let_def)
  with n show ?thesis by blast
qed

lemma example_signatures:
  "signature add_Tensor = Inr (add_Tensor\<lparr>name := op ''add'' False []\<rparr>)"
  "signature sub_out = Inr (add_Tensor\<lparr>name := op ''sub'' False []\<rparr>)"
  "signature add_out = Inr (add_Tensor\<lparr>name := op ''add'' False []\<rparr>)"
  "signature add__Tensor = Inr (add_Tensor\<lparr>name := op ''add'' False []\<rparr>)"
  by code_simp+

theorem group_signature_mismatch_fails_witness:
  "group_functions add_sub_group = [native_function add_Tensor, native_function sub_out] \<and>
   signature (func (native_function add_Tensor))
     = Inr (add_Tensor\<lparr>name := op ''add'' False []\<rparr>) \<and>
   signature (func (native_function sub_out))
     = Inr (add_Tensor\<lparr>name := op ''sub'' False []\<rparr>) \<and>
   signature (func (native_function sub_out))
     \<noteq> signature (func (grp_functional add_sub_group)) \<and>
   new_NativeFunctionsGroup add_sub_group = Inl SignatureMismatch \<and>
   from_dict [Functional \<mapsto> native_function add_Tensor, Out \<mapsto> native_function sub_out]
     = Inl SignatureMismatch"
proof -
  have fs: "group_functions add_sub_group = [native_function add_Tensor, native_function sub_out]"
    by (simp add: group_functions_def add_sub_group_def)
  have ne: "add_Tensor\<lparr>name := op ''sub'' False []\<rparr> \<noteq> add_Tensor\<lparr>name := op ''add'' False []\<rparr>"
    by (simp add: add_Tensor_def op_def)
  have s1: "signature (func (native_function add_Tensor))
     = Inr (add_Tensor\<lparr>name := op ''add'' False []\<rparr>)"
    by (simp add: native_function_def example_signatures)
  have s2: "signature (func (native_function sub_out))
     = Inr (add_Tensor\<lparr>name := op ''sub'' False []\<rparr>)"
    by (simp add: native_function_def example_signatures)
  have f: "grp_functional add_sub_group = native_function add_Tensor"
    by (simp add: add_sub_group_def)
  have n: "signature (func (native_function sub_out))
     \<noteq> signature (func (grp_functional add_sub_group))"
    unfolding f s1 s2 using ne by simp
  have a: "\<forall>f\<in>set (group_functions add_sub_group). \<exists>s. signature (func f) = Inr s"
    unfolding fs using s1 s2 by simp
  have b: "\<exists>f\<in>set (group_functions add_sub_group).
      signature (func f) \<noteq> signature (func (grp_functional add_sub_group))"
    unfolding fs using n by simp
  have d: "[Functional \<mapsto> native_function add_Tensor, Out \<mapsto> native_function sub_out] Functional
             = Some (grp_functional add_sub_group) \<and>
           [Functional \<mapsto> native_function add_Tensor, Out \<mapsto> native_function sub_out] Out
             = Some (grp_out add_sub_group) \<and>
           [Functional \<mapsto> native_function add_Tensor, Out \<mapsto> native_function sub_out] Inplace
             = grp_inplace add_sub_group \<and>
           [Functional \<mapsto> native_function add_Tensor, Out \<mapsto> native_function sub_out] Mutable
             = grp_mutable add_sub_group"
    by (simp add: add_sub_group_def)
  from group_signature_mismatch_fails [OF a b] d fs s1 s2 n show ?thesis by blast
qed

section \<open>The signature of a schema with an ordinary name\<close>

text \<open>
  For a schema that is not named \<^verbatim>\<open>arange.start_step\<close> or \<^verbatim>\<open>bernoulli.p\<close> the signature is
  built from the stripped arguments as they are: it exists, it is in canonical form, and
  it is its own signature.
\<close>

lemma strip_arg_annotation_idem:
  "strip_arg_annotation False (strip_arg_annotation False a) = strip_arg_annotation False a"
  by (simp add: strip_arg_annotation_def)

lemma Arguments_signature_form:
  assumes "Arguments_signature sd a = Inr b"
  shows "b = \<lparr>pre_self_positional = map (strip_arg_annotation sd) (pre_self_positional a),
        self_arg = (case self_arg a of
                      Some s \<Rightarrow> Some (SelfArgument (strip_arg_annotation sd (argument s)))
                    | None \<Rightarrow> None),
        post_self_positional = map (strip_arg_annotation sd) (post_self_positional a),
        pre_tensor_options_kwarg_only =
          map (strip_arg_annotation sd) (pre_tensor_options_kwarg_only a)
          @ map (strip_arg_annotation sd) (post_tensor_options_kwarg_only a),
        tensor_options = None,
        post_tensor_options_kwarg_only = [],
        out = []\<rparr>"
    and "Arguments_post_init b = Inr ()"
  using assms
  by (auto simp: Arguments_signature_def new_Arguments_def split: sum.splits)

lemma Arguments_signature_idem:
  assumes "Arguments_signature False a = Inr b"
  shows "Arguments_signature False b = Inr b"
proof -
  note b = Arguments_signature_form [OF assms]
  have "\<lparr>pre_self_positional = map (strip_arg_annotation False) (pre_self_positional b),
        self_arg = (case self_arg b of
                      Some s \<Rightarrow> Some (SelfArgument (strip_arg_annotation False (argument s)))
                    | None \<Rightarrow> None),
        post_self_positional = map (strip_arg_annotation False) (post_self_positional b),
        pre_tensor_options_kwarg_only =
          map (strip_arg_annotation False) (pre_tensor_options_kwarg_only b)
          @ map (strip_arg_annotation False) (post_tensor_options_kwarg_only b),
        tensor_options = None,
        post_tensor_options_kwarg_only = [],
        out = []\<rparr> = b"
    unfolding b(1) by (simp add: strip_arg_annotation_idem split: option.splits)
  then show ?thesis
    by (simp add: Arguments_signature_def new_Arguments_def b(2))
qed


lemma signature_form:
  assumes "signature x = Inr y"
    and "OperatorName_str (name x) \<noteq> ''arange.start_step''"
    and "OperatorName_str (name x) \<noteq> ''bernoulli.p''"
  obtains a0 where
    "Arguments_signature False (arguments x) = Inr a0"
    "y = \<lparr>name = \<lparr>op_name = \<lparr>base = base (op_name (name x)), inplace = False,
                 dunder_method = dunder_method (op_name (name x))\<rparr>, overload_name = []\<rparr>,
          arguments = a0,
          returns =
            map (strip_ret_annotation False) (returns x) @
            map (\<lambda>a. \<lparr>ret_name = None, ret_type = arg_type a, ret_annotation = None\<rparr>)
             (filter
               (\<lambda>a. annotation_is_write (arg_annotation a) \<and>
                    \<not> list_ex (\<lambda>r. arg_annotation a = ret_annotation r) (returns x))
               ((case self_arg (arguments x) of None \<Rightarrow> [] | Some s \<Rightarrow> [argument s]) @
                out (arguments x) @ post_self_positional (arguments x)))\<rparr>"
    "FunctionSchema_post_init y = Inr ()"
proof -
  note d = signature_def signature_kw_def Let_def
  obtain a0 where s0: "Arguments_signature False (arguments x) = Inr a0"
    using assms(1) by (cases "Arguments_signature False (arguments x)") (simp_all only: d sum.simps)
  have "new_FunctionSchema
     \<lparr>name = \<lparr>op_name = \<lparr>base = base (op_name (name x)), inplace = False,
                 dunder_method = dunder_method (op_name (name x))\<rparr>, overload_name = []\<rparr>,
          arguments = a0,
          returns =
            map (strip_ret_annotation False) (returns x) @
            map (\<lambda>a. \<lparr>ret_name = None, ret_type = arg_type a, ret_annotation = None\<rparr>)
             (filter
               (\<lambda>a. annotation_is_write (arg_annotation a) \<and>
                    \<not> list_ex (\<lambda>r. arg_annotation a = ret_annotation r) (returns x))
               ((case self_arg (arguments x) of None \<Rightarrow> [] | Some s \<Rightarrow> [argument s]) @
                out (arguments x) @ post_self_positional (arguments x)))\<rparr> = Inr y"
    using assms by (simp only: d s0 sum.simps if_False simp_thms)
  then show thesis
    using s0 by (intro that) (auto simp: new_FunctionSchema_def split: sum.splits)
qed


lemma Arguments_signature_plain:
  assumes "Arguments_signature sd a = Inr b"
  shows "\<forall>x\<in>set (flat_all b). arg_annotation x = None"
    and "tensor_options b = None" and "out b = []" and "post_tensor_options_kwarg_only b = []"
    and "\<forall>x\<in>set (post_self_positional b). arg_annotation x = None"
    and "\<forall>s. self_arg b = Some s \<longrightarrow> arg_annotation (argument s) = None"
  unfolding Arguments_signature_form(1) [OF assms]
  by (auto simp: flat_all_def flat_positional_def flat_kwarg_only_def strip_arg_annotation_def
      split: option.splits)

lemma signature_canonical:
  assumes "signature x = Inr y"
    and "OperatorName_str (name x) \<noteq> ''arange.start_step''"
    and "OperatorName_str (name x) \<noteq> ''bernoulli.p''"
  shows "out (arguments y) = [] \<and> tensor_options (arguments y) = None \<and>
         overload_name (name y) = [] \<and> \<not> inplace (op_name (name y)) \<and>
         list_all (\<lambda>a. arg_annotation a = None) (flat_all (arguments y)) \<and>
         list_all (\<lambda>r. ret_annotation r = None) (returns y) \<and>
         kind y = Inr Functional"
proof -
  from assms obtain a0 where a0: "Arguments_signature False (arguments x) = Inr a0"
    and yf: "y = \<lparr>name = \<lparr>op_name = \<lparr>base = base (op_name (name x)), inplace = False,
                 dunder_method = dunder_method (op_name (name x))\<rparr>, overload_name = []\<rparr>,
          arguments = a0,
          returns =
            map (strip_ret_annotation False) (returns x) @
            map (\<lambda>a. \<lparr>ret_name = None, ret_type = arg_type a, ret_annotation = None\<rparr>)
             (filter
               (\<lambda>a. annotation_is_write (arg_annotation a) \<and>
                    \<not> list_ex (\<lambda>r. arg_annotation a = ret_annotation r) (returns x))
               ((case self_arg (arguments x) of None \<Rightarrow> [] | Some s \<Rightarrow> [argument s]) @
                out (arguments x) @ post_self_positional (arguments x)))\<rparr>"
    by (rule signature_form)
  have y: "arguments y = a0" "overload_name (name y) = []" "\<not> inplace (op_name (name y))"
    by (simp_all add: yf)
  have yr: "\<forall>r\<in>set (returns y). ret_annotation r = None"
    unfolding yf by (auto simp: strip_ret_annotation_def)
  note p = Arguments_signature_plain [OF a0]
  have "kind y = Inr Functional"
    using p(3,5) y(1,3)
    by (auto simp: kind_def Let_def list_ex_iff annotation_is_write_def)
  with p y yr show ?thesis by (simp add: list_all_iff)
qed

lemma signature_idempotent:
  assumes "signature x = Inr y"
    and "OperatorName_str (name x) \<noteq> ''arange.start_step''"
    and "OperatorName_str (name x) \<noteq> ''bernoulli.p''"
    and "OperatorName_str (name y) \<noteq> ''arange.start_step''"
    and "OperatorName_str (name y) \<noteq> ''bernoulli.p''"
  shows "signature y = Inr y"
proof -
  from assms(1-3) obtain a0 where a0: "Arguments_signature False (arguments x) = Inr a0"
    and y: "y = \<lparr>name = \<lparr>op_name = \<lparr>base = base (op_name (name x)), inplace = False,
                 dunder_method = dunder_method (op_name (name x))\<rparr>, overload_name = []\<rparr>,
          arguments = a0,
          returns =
            map (strip_ret_annotation False) (returns x) @
            map (\<lambda>a. \<lparr>ret_name = None, ret_type = arg_type a, ret_annotation = None\<rparr>)
             (filter
               (\<lambda>a. annotation_is_write (arg_annotation a) \<and>
                    \<not> list_ex (\<lambda>r. arg_annotation a = ret_annotation r) (returns x))
               ((case self_arg (arguments x) of None \<Rightarrow> [] | Some s \<Rightarrow> [argument s]) @
                out (arguments x) @ post_self_positional (arguments x)))\<rparr>"
    and ok: "FunctionSchema_post_init y = Inr ()"
    by (rule signature_form)
  note p = Arguments_signature_plain [OF a0]
  have args: "arguments y = a0" by (simp add: y)
  have idem: "Arguments_signature False a0 = Inr a0"
    by (rule Arguments_signature_idem [OF a0])
  have nw: "filter (\<lambda>a. annotation_is_write (arg_annotation a) \<and>
                    \<not> list_ex (\<lambda>r. arg_annotation a = ret_annotation r) (returns y))
               ((case self_arg a0 of None \<Rightarrow> [] | Some s \<Rightarrow> [argument s]) @
                out a0 @ post_self_positional a0) = []"
    using p(3,5,6) by (auto simp: filter_empty_conv annotation_is_write_def split: option.splits)
  have rs: "map (strip_ret_annotation False) (returns y) = returns y"
    by (simp add: y strip_ret_annotation_def)
  have nm: "\<lparr>op_name = \<lparr>base = base (op_name (name y)), inplace = False,
                 dunder_method = dunder_method (op_name (name y))\<rparr>, overload_name = []\<rparr>
            = name y"
    by (simp add: y)
  have "signature y = new_FunctionSchema
          \<lparr>name = name y, arguments = a0, returns = returns y\<rparr>"
    using assms(4,5)
    by (simp only: signature_def signature_kw_def Let_def idem sum.simps if_False simp_thms
        args nw rs nm list.map append_Nil2)
  also have "\<lparr>name = name y, arguments = a0, returns = returns y\<rparr> = y"
    by (simp add: y)
  finally show ?thesis by (simp add: new_FunctionSchema_def ok)
qed


lemma Arguments_signature_exists:
  assumes "Arguments_post_init a = Inr ()"
  shows "\<exists>b. Arguments_signature sd a = Inr b"
proof -
  have "filter Argument_is_write (map (strip_arg_annotation sd) xs) = []" for xs
    by (simp add: filter_empty_conv Argument_is_write_def annotation_is_write_def
        strip_arg_annotation_def)
  with assms show ?thesis
    by (auto simp: Arguments_signature_def new_Arguments_def Arguments_post_init_def
        split: if_splits option.splits)
qed

lemma plain_schema_constructed:
  assumes "out (arguments y) = []" and "tensor_options (arguments y) = None"
    and "overload_name (name y) = []" and "\<not> inplace (op_name (name y))"
    and "\<forall>a\<in>set (post_self_positional (arguments y)). arg_annotation a = None"
    and "\<forall>r\<in>set (returns y). ret_annotation r = None"
  shows "FunctionSchema_post_init y = Inr ()"
proof -
  have m: "post_self_positional_mutable (arguments y) = []"
    using assms(5)
    by (simp add: post_self_positional_mutable_def filter_empty_conv Argument_is_write_def
        annotation_is_write_def)
  have r: "filter (\<lambda>r. annotation_is_write (ret_annotation r)) (returns y) = []"
    using assms(6) by (simp add: filter_empty_conv annotation_is_write_def)
  have f: "\<not> is_functional_fn y"
    using assms(3) by (simp add: is_functional_fn_def str_contains_def)
  show ?thesis
    unfolding FunctionSchema_post_init_def Let_def
    by (simp add: assms(1,2,4) m r f)
qed

lemma signature_exists:
  assumes "Arguments_post_init (arguments x) = Inr ()"
    and "OperatorName_str (name x) \<noteq> ''arange.start_step''"
    and "OperatorName_str (name x) \<noteq> ''bernoulli.p''"
  shows "\<exists>y. signature x = Inr y"
proof -
  from Arguments_signature_exists [OF assms(1)] obtain a0 where
    a0: "Arguments_signature False (arguments x) = Inr a0" by blast
  note p = Arguments_signature_plain [OF a0]
  let ?y = "\<lparr>name = \<lparr>op_name = \<lparr>base = base (op_name (name x)), inplace = False,
                 dunder_method = dunder_method (op_name (name x))\<rparr>, overload_name = []\<rparr>,
          arguments = a0,
          returns =
            map (strip_ret_annotation False) (returns x) @
            map (\<lambda>a. \<lparr>ret_name = None, ret_type = arg_type a, ret_annotation = None\<rparr>)
             (filter
               (\<lambda>a. annotation_is_write (arg_annotation a) \<and>
                    \<not> list_ex (\<lambda>r. arg_annotation a = ret_annotation r) (returns x))
               ((case self_arg (arguments x) of None \<Rightarrow> [] | Some s \<Rightarrow> [argument s]) @
                out (arguments x) @ post_self_positional (arguments x)))\<rparr>"
  have "signature x = new_FunctionSchema ?y"
    using assms(2,3)
    by (simp only: signature_def signature_kw_def Let_def a0 sum.simps if_False simp_thms)
  moreover have "FunctionSchema_post_init ?y = Inr ()"
    by (rule plain_schema_constructed) (use p in \<open>auto simp: strip_ret_annotation_def\<close>)
  ultimately show ?thesis by (simp add: new_FunctionSchema_def)
qed

lemma str_find_char_None: "str_find s [c] = None \<Longrightarrow> c \<notin> set s"
  by (induction s) (auto simp: str_startswith_def split: if_splits)

lemma str_find_char_Some: "str_find s [c] = Some i \<Longrightarrow> c \<notin> set (take i s)"
  by (induction s arbitrary: i) (auto simp: str_startswith_def split: if_splits)

lemma BaseOperatorName_parse_base: "BaseOperatorName_parse n = Inr b \<Longrightarrow> set (base b) \<subseteq> set n"
proof -
  assume "BaseOperatorName_parse n = Inr b"
  then have "BaseOperatorName_str b = n"
    by (auto simp: BaseOperatorName_parse_def split: if_splits sum.splits)
  then show ?thesis by (auto simp: BaseOperatorName_str_def split: if_splits)
qed

lemma OperatorName_parse_no_dot:
  assumes "OperatorName_parse s = Inr n"
  shows "CHR ''.'' \<notin> set (base (op_name n))"
proof -
  obtain nm ov where
    p: "(if str_contains s ''.''
         then (case str_split1 s ''.'' of [n, ov] \<Rightarrow> (n, ov) | _ \<Rightarrow> (s, []))
         else (s, [])) = (nm, ov)"
    by (metis surj_pair)
  have nd: "CHR ''.'' \<notin> set nm"
  proof (cases "str_find s ''.''")
    case None
    with p have "nm = s" by (simp add: str_contains_def)
    with None show ?thesis by (auto dest: str_find_char_None)
  next
    case (Some i)
    with p have "nm = take i s" by (simp add: str_contains_def str_split1_def)
    with Some show ?thesis by (auto dest: str_find_char_Some)
  qed
  from assms p obtain b where "BaseOperatorName_parse nm = Inr b" and "op_name n = b"
    by (auto simp: OperatorName_parse_def Let_def split: sum.splits if_splits)
  with nd show ?thesis by (auto dest: BaseOperatorName_parse_base)
qed

lemma no_dot_not_special:
  assumes "CHR ''.'' \<notin> set (base (op_name n))" and "overload_name n = []"
  shows "OperatorName_str n \<noteq> ''arange.start_step''" and "OperatorName_str n \<noteq> ''bernoulli.p''"
proof -
  have "CHR ''.'' \<notin> set (OperatorName_str n)"
    using assms by (simp add: OperatorName_str_def BaseOperatorName_str_def)
  then show "OperatorName_str n \<noteq> ''arange.start_step''"
    and "OperatorName_str n \<noteq> ''bernoulli.p''" by auto
qed

lemma FunctionSchema_parse_parts:
  assumes "FunctionSchema_parse s = Inr x"
  shows "\<exists>ops. OperatorName_parse ops = Inr (name x)"
    and "Arguments_post_init (arguments x) = Inr ()"
    and "new_FunctionSchema x = Inr x"
  using assms
  by (auto simp: FunctionSchema_parse_def Arguments_parse_def new_Arguments_def
      new_FunctionSchema_def Let_def
      split: list.splits prod.splits sum.splits if_splits)

lemma parsed_signature_idempotent:
  assumes "FunctionSchema_parse s = Inr x"
    and "OperatorName_str (name x) \<noteq> ''arange.start_step''"
    and "OperatorName_str (name x) \<noteq> ''bernoulli.p''"
  shows "\<exists>y. signature x = Inr y \<and> signature y = Inr y"
proof -
  note parts = FunctionSchema_parse_parts [OF assms(1)]
  from signature_exists [OF parts(2) assms(2,3)] obtain y where y: "signature x = Inr y" by blast
  from parts(1) have nd: "CHR ''.'' \<notin> set (base (op_name (name x)))"
    by (auto dest: OperatorName_parse_no_dot)
  from y assms(2,3) have "base (op_name (name y)) = base (op_name (name x))"
    and ov: "overload_name (name y) = []"
    by (auto elim!: signature_form)
  with nd have "CHR ''.'' \<notin> set (base (op_name (name y)))" by simp
  from signature_idempotent [OF y assms(2,3) no_dot_not_special [OF this ov]] y
  show ?thesis by blast
qed

section \<open>Members of a group\<close>

lemma check_signatures_Inr:
  "check_signatures t fs = Inr () \<Longrightarrow> \<forall>f\<in>set fs. signature (func f) = Inr t"
  by (induction fs) (auto split: sum.splits if_splits)

text \<open>
  The functional, out, inplace and mutable members of a group that was constructed have
  the same signature: the variants of one operator, as the source groups them.
\<close>

lemma group_members_share_signature:
  assumes "new_NativeFunctionsGroup g = Inr g'"
  shows "\<forall>f\<in>set (group_functions g'). signature (func f) = signature (func (grp_functional g'))"
proof -
  from assms have g: "g' = g" and ok: "NativeFunctionsGroup_post_init g = Inr ()"
    by (auto simp: new_NativeFunctionsGroup_def split: sum.splits)
  from ok obtain t where t: "signature (func (grp_functional g)) = Inr t"
    and c: "check_signatures t (group_functions g) = Inr ()"
    by (auto simp: NativeFunctionsGroup_post_init_def split: sum.splits)
  from check_signatures_Inr [OF c] t show ?thesis by (simp add: g)
qed

lemma add_group_constructed: "new_NativeFunctionsGroup add_group = Inr add_group"
  by code_simp

section \<open>The signature of a schema named bernoulli.p\<close>

lemma bernoulli_p_dup_signature_eq:
  "signature bernoulli_p_dup = Inr bernoulli_p_dup_signature"
  by code_simp

text \<open>
  Claim C9 fails on this schema: it parses, its signature exists, and the signature has a
  tensor options bundle, which the second pass over the printed arguments has found.
\<close>

theorem signature_with_tensor_options:
  "signature bernoulli_p_dup = Inr bernoulli_p_dup_signature \<and>
   tensor_options (arguments bernoulli_p_dup_signature) \<noteq> None"
  using bernoulli_p_dup_signature_eq by (simp add: bernoulli_p_dup_signature_def)

text \<open>
  Claim C3 fails on the same schema: the signature of its signature exists and is a
  different schema, without the bundle.
\<close>

theorem signature_not_idempotent:
  "signature bernoulli_p_dup = Inr bernoulli_p_dup_signature \<and>
   (\<exists>z. signature bernoulli_p_dup_signature = Inr z \<and> z \<noteq> bernoulli_p_dup_signature)"
proof -
  let ?z = "bernoulli_p_dup_signature\<lparr>arguments :=
              (arguments bernoulli_p_dup_signature)\<lparr>tensor_options := None\<rparr>\<rparr>"
  have "signature bernoulli_p_dup_signature = Inr ?z" by code_simp
  moreover have "?z \<noteq> bernoulli_p_dup_signature"
    by (simp add: bernoulli_p_dup_signature_def)
  ultimately show ?thesis using bernoulli_p_dup_signature_eq by blast
qed

end
